theory Spec2Isabelle
  imports Main "HOL-Library.Sublist" "HOL-Library.Multiset"
    "HOL-Library.List_Lexorder" "HOL-Library.Char_ord"
begin

section \<open>Strings, bytes and numbers of the JavaScript platform\<close>

text \<open>
  A JavaScript string is modelled by the list of bytes of its UTF-8 encoding, so that
  \<open>new TextEncoder().encode(s)\<close> is the identity and an \<open>ArrayBuffer\<close> or
  \<open>Uint8Array\<close> is a \<^typ>\<open>string\<close> as well. Numbers are modelled by
  integers; every number the modelled code computes with (sizes, counters, status codes)
  is an integer far below \<open>2^53\<close>, where JavaScript's doubles are exact.
\<close>

type_synonym bytes = string

text \<open>
  A thrown exception. \<open>TypeError\<close> stands for the exceptions the platform itself
  raises (an invalid URL, a property read on \<open>null\<close>, a network failure of
  \<open>fetch\<close>, invalid JSON); \<open>JsError m\<close> is \<open>new Error(m)\<close>.
\<close>

datatype js_error = TypeError | JsError string

definition error_message :: "js_error \<Rightarrow> string option" where
  "error_message e = (case e of JsError m \<Rightarrow> Some m | TypeError \<Rightarrow> None)"

text \<open>\<open>xs.join(sep)\<close> on an array of strings.\<close>

fun join :: "string \<Rightarrow> string list \<Rightarrow> string" where
  "join sep [] = []"
| "join sep [x] = x"
| "join sep (x # y # ys) = x @ sep @ join sep (y # ys)"

text \<open>\<open>s.substring(i, j)\<close> for \<open>i \<le> j\<close> (the only way the source calls it).\<close>

definition substring :: "nat \<Rightarrow> nat \<Rightarrow> string \<Rightarrow> string" where
  "substring i j s = take (j - i) (drop i s)"

text \<open>\<open>s.replace(/c/g, r)\<close> for a single character \<open>c\<close>.\<close>

definition replace_char :: "char \<Rightarrow> string \<Rightarrow> string \<Rightarrow> string" where
  "replace_char c r s = concat (map (\<lambda>x. if x = c then r else [x]) s)"

text \<open>\<open>s.replace(/%2F/g, '/')\<close>: matches are found left to right and do not overlap.\<close>

fun replace_2F :: "string \<Rightarrow> string" where
  "replace_2F [] = []"
| "replace_2F (c # cs) =
     (if c = CHR ''%'' \<and> take 2 cs = ''2F'' then CHR ''/'' # replace_2F (drop 2 cs)
      else c # replace_2F cs)"

text \<open>Decimal digits; \<open>String(n)\<close> for an integer \<open>n\<close>.\<close>

definition digit :: "nat \<Rightarrow> char" where
  "digit n = ''0123456789'' ! (n mod 10)"

fun decimal :: "nat \<Rightarrow> string" where
  "decimal n = (if n < 10 then [digit n] else decimal (n div 10) @ [digit (n mod 10)])"

declare decimal.simps [simp del]


text \<open>\<open>b.toString(16).padStart(2, '0')\<close> for a byte \<open>b\<close>.\<close>

definition hexdigit :: "nat \<Rightarrow> char" where
  "hexdigit n = ''0123456789abcdef'' ! (n mod 16)"

definition hex2 :: "char \<Rightarrow> string" where
  "hex2 b = [hexdigit (of_char b div 16), hexdigit (of_char b mod 16)]"

text \<open>
  \<open>encodeURIComponent\<close> on the UTF-8 bytes of a well-formed string: the characters
  \<open>A-Z a-z 0-9 - _ . ! ~ * ' ( )\<close> stay, every other byte becomes \<open>%XX\<close> with
  upper-case hexadecimal digits.
\<close>

definition uri_unreserved :: "char \<Rightarrow> bool" where
  "uri_unreserved c \<longleftrightarrow>
     c \<in> set ''ABCDEFGHIJKLMNOPQRSTUVWXYZabcdefghijklmnopqrstuvwxyz0123456789-_.!~*()''
     \<or> c = CHR 0x27"

definition HEXDIGIT :: "nat \<Rightarrow> char" where
  "HEXDIGIT n = ''0123456789ABCDEF'' ! (n mod 16)"

definition percent :: "char \<Rightarrow> string" where
  "percent b = [CHR ''%'', HEXDIGIT (of_char b div 16), HEXDIGIT (of_char b mod 16)]"

definition encodeURIComponent :: "string \<Rightarrow> string" where
  "encodeURIComponent s = concat (map (\<lambda>c. if uri_unreserved c then [c] else percent c) s)"


text \<open>
  The instant \<open>new Date()\<close> returns, by its UTC calendar fields (month \<open>1..12\<close>,
  year \<open>0..9999\<close>), and \<open>toISOString()\<close>, which prints it as
  \<open>YYYY-MM-DDTHH:mm:ss.sssZ\<close>.
\<close>

record js_date =
  utcFullYear :: nat
  utcMonth :: nat
  utcDate :: nat
  utcHours :: nat
  utcMinutes :: nat
  utcSeconds :: nat
  utcMilliseconds :: nat

definition pad2 :: "nat \<Rightarrow> string" where
  "pad2 n = [digit (n div 10), digit n]"

definition pad3 :: "nat \<Rightarrow> string" where
  "pad3 n = [digit (n div 100), digit (n div 10), digit n]"

definition pad4 :: "nat \<Rightarrow> string" where
  "pad4 n = [digit (n div 1000), digit (n div 100), digit (n div 10), digit n]"

definition toISOString :: "js_date \<Rightarrow> string" where
  "toISOString d =
     pad4 (utcFullYear d) @ ''-'' @ pad2 (utcMonth d) @ ''-'' @ pad2 (utcDate d) @ ''T'' @
     pad2 (utcHours d) @ '':'' @ pad2 (utcMinutes d) @ '':'' @ pad2 (utcSeconds d) @ ''.'' @
     pad3 (utcMilliseconds d) @ ''Z''"

text \<open>
  A JavaScript object with string values, as the list of its own entries in property order
  (what \<open>Object.entries\<close> returns), keys distinct. \<open>obj[k] = v\<close> for a key that is not
  an array index overwrites the value in place or appends a new last entry.
\<close>

type_synonym headers = "(string \<times> string) list"

fun obj_set :: "(string \<times> 'v) list \<Rightarrow> string \<Rightarrow> 'v \<Rightarrow> (string \<times> 'v) list" where
  "obj_set [] k v = [(k, v)]"
| "obj_set ((k', v') # kvs) k v =
     (if k' = k then (k, v) # kvs else (k', v') # obj_set kvs k v)"

text \<open>
  \<open>xs.sort(cmp)\<close>: the sort is stable, and for a consistent comparator every stable
  sort returns the same array; it is modelled by insertion from the right, an element
  going before the first one it does not compare greater than.
\<close>

fun sort_insert :: "('a \<Rightarrow> 'a \<Rightarrow> int) \<Rightarrow> 'a \<Rightarrow> 'a list \<Rightarrow> 'a list" where
  "sort_insert cmp x [] = [x]"
| "sort_insert cmp x (y # ys) =
     (if cmp x y \<le> 0 then x # y # ys else y # sort_insert cmp x ys)"

definition js_sort :: "('a \<Rightarrow> 'a \<Rightarrow> int) \<Rightarrow> 'a list \<Rightarrow> 'a list" where
  "js_sort cmp xs = foldr (sort_insert cmp) xs []"

text \<open>The parts of \<open>new URL(url)\<close> the source reads.\<close>

record parsed_url =
  host :: string
  pathname :: string
  searchParams :: "(string \<times> string) list"

text \<open>JSON values, and the values of JavaScript variables that hold them.\<close>

datatype jsval =
  JUndefined | JNull | JBool bool | JNum int | JStr string
  | JArr "jsval list" | JObj "(string \<times> jsval) list"

text \<open>
  The functions of the platform that the source calls and that are not defined here:
  the SHA-256 digest and the HMAC-SHA256 signature of \<open>crypto.subtle\<close> (on bytes),
  \<open>toLowerCase\<close>, \<open>trim\<close> and \<open>localeCompare\<close> of strings, the URL parser
  (\<open>None\<close> when \<open>new URL\<close> throws), the conversion of a string, array or object to
  a number (\<open>None\<close> for \<open>NaN\<close>), \<open>JSON.stringify\<close> and \<open>JSON.parse\<close>.
\<close>

record platform =
  digestSHA256 :: "bytes \<Rightarrow> bytes"
  signHMAC :: "bytes \<Rightarrow> bytes \<Rightarrow> bytes"
  toLowerCase :: "string \<Rightarrow> string"
  trim :: "string \<Rightarrow> string"
  localeCompare :: "string \<Rightarrow> string \<Rightarrow> int"
  newURL :: "string \<Rightarrow> parsed_url option"
  toNumber :: "jsval \<Rightarrow> int option"
  JSON_stringify :: "jsval \<Rightarrow> string"
  JSON_parse :: "string \<Rightarrow> js_error + jsval"

section \<open>functions/utils/s3client.js: request signing\<close>

definition arrayBufferToHex :: "bytes \<Rightarrow> string" where
  "arrayBufferToHex buffer = concat (map hex2 buffer)"

definition sha256Hex :: "platform \<Rightarrow> bytes \<Rightarrow> string" where
  "sha256Hex P data = arrayBufferToHex (digestSHA256 P data)"

definition hmacSha256 :: "platform \<Rightarrow> bytes \<Rightarrow> bytes \<Rightarrow> bytes" where
  "hmacSha256 P key data = signHMAC P key data"

definition uriEncode :: "string \<Rightarrow> bool \<Rightarrow> string" where
  "uriEncode str encodeSlash =
     (let encoded = encodeURIComponent str;
          encoded = replace_char CHR ''*'' ''%2A''
                      (replace_char CHR '')'' ''%29''
                        (replace_char CHR ''('' ''%28''
                          (replace_char (CHR 0x27) ''%27''
                            (replace_char CHR ''!'' ''%21'' encoded))))
      in if \<not> encodeSlash then replace_2F encoded else encoded)"

record credentials =
  accessKeyId :: string
  secretAccessKey :: string
  region :: string
  service :: string

text \<open>The \<open>body\<close> argument: \<open>null\<close>, a string, or an \<open>ArrayBuffer\<close>/\<open>Uint8Array\<close>.\<close>

datatype js_body = NoBody | TextBody string | BufferBody bytes

fun body_truthy :: "js_body \<Rightarrow> bool" where
  "body_truthy NoBody = False"
| "body_truthy (TextBody s) = (s \<noteq> [])"
| "body_truthy (BufferBody b) = True"

fun body_bytes :: "js_body \<Rightarrow> bytes" where
  "body_bytes NoBody = []"
| "body_bytes (TextBody s) = s"
| "body_bytes (BufferBody b) = b"

text \<open>The local variables of \<open>signRequest\<close>, in the order the source computes them.\<close>

definition dateStamp :: "js_date \<Rightarrow> string" where
  "dateStamp now = substring 0 8 (filter (\<lambda>c. c \<notin> set ''-:.TZ'') (toISOString now))"

definition amzDate :: "js_date \<Rightarrow> string" where
  "amzDate now =
     dateStamp now @ ''T'' @
     substring 9 15 (filter (\<lambda>c. c \<notin> set ''-:.Z'') (toISOString now)) @ ''Z''"

definition payloadHash :: "platform \<Rightarrow> js_body \<Rightarrow> string" where
  "payloadHash P body =
     (if body_truthy body then sha256Hex P (body_bytes body) else sha256Hex P [])"

definition required_headers ::
  "platform \<Rightarrow> js_date \<Rightarrow> parsed_url \<Rightarrow> js_body \<Rightarrow> headers \<Rightarrow> headers" where
  "required_headers P now parsedUrl body hdrs =
     obj_set (obj_set (obj_set hdrs ''x-amz-date'' (amzDate now))
                ''x-amz-content-sha256'' (payloadHash P body))
       ''host'' (host parsedUrl)"

definition query_cmp :: "platform \<Rightarrow> string \<times> string \<Rightarrow> string \<times> string \<Rightarrow> int" where
  "query_cmp P a b =
     (if localeCompare P (fst a) (fst b) \<noteq> 0 then localeCompare P (fst a) (fst b)
      else localeCompare P (snd a) (snd b))"

definition sortedQuery :: "platform \<Rightarrow> parsed_url \<Rightarrow> (string \<times> string) list" where
  "sortedQuery P parsedUrl = js_sort (query_cmp P) (searchParams parsedUrl)"

definition canonicalQueryString :: "platform \<Rightarrow> parsed_url \<Rightarrow> string" where
  "canonicalQueryString P parsedUrl =
     join ''&'' (map (\<lambda>(k, v). uriEncode k True @ ''='' @ uriEncode v True)
                   (sortedQuery P parsedUrl))"

definition header_cmp :: "platform \<Rightarrow> string \<times> string \<Rightarrow> string \<times> string \<Rightarrow> int" where
  "header_cmp P a b = localeCompare P (fst a) (fst b)"

definition sortedHeaders :: "platform \<Rightarrow> headers \<Rightarrow> headers" where
  "sortedHeaders P hdrs =
     js_sort (header_cmp P) (map (\<lambda>(k, v). (trim P (toLowerCase P k), trim P v)) hdrs)"

definition canonicalHeaders :: "headers \<Rightarrow> string" where
  "canonicalHeaders shs = concat (map (\<lambda>(k, v). k @ '':'' @ v @ [CHR 0x0A]) shs)"

definition signedHeaders :: "headers \<Rightarrow> string" where
  "signedHeaders shs = join '';'' (map fst shs)"

definition canonicalRequest ::
  "platform \<Rightarrow> string \<Rightarrow> parsed_url \<Rightarrow> headers \<Rightarrow> string \<Rightarrow> string" where
  "canonicalRequest P method parsedUrl shs hash =
     join [CHR 0x0A]
       [method, uriEncode (pathname parsedUrl) False, canonicalQueryString P parsedUrl,
        canonicalHeaders shs, signedHeaders shs, hash]"

definition credentialScope :: "js_date \<Rightarrow> credentials \<Rightarrow> string" where
  "credentialScope now cred =
     dateStamp now @ ''/'' @ region cred @ ''/'' @ service cred @ ''/aws4_request''"

definition stringToSign :: "platform \<Rightarrow> js_date \<Rightarrow> credentials \<Rightarrow> string \<Rightarrow> string" where
  "stringToSign P now cred creq =
     join [CHR 0x0A]
       [''AWS4-HMAC-SHA256'', amzDate now, credentialScope now cred, sha256Hex P creq]"

definition kSigning :: "platform \<Rightarrow> js_date \<Rightarrow> credentials \<Rightarrow> bytes" where
  "kSigning P now cred =
     (let kDate = hmacSha256 P (''AWS4'' @ secretAccessKey cred) (dateStamp now);
          kRegion = hmacSha256 P kDate (region cred);
          kService = hmacSha256 P kRegion (service cred)
      in hmacSha256 P kService ''aws4_request'')"

definition signRequest ::
  "platform \<Rightarrow> js_date \<Rightarrow> string \<Rightarrow> string \<Rightarrow> headers \<Rightarrow> js_body \<Rightarrow> credentials
     \<Rightarrow> js_error + headers" where
  "signRequest P now method url hdrs body cred =
     (case newURL P url of
        None \<Rightarrow> Inl TypeError
      | Some parsedUrl \<Rightarrow>
          (let hdrs' = required_headers P now parsedUrl body hdrs;
               shs = sortedHeaders P hdrs';
               creq = canonicalRequest P method parsedUrl shs (payloadHash P body);
               signature = arrayBufferToHex
                             (hmacSha256 P (kSigning P now cred) (stringToSign P now cred creq))
           in Inr (obj_set hdrs' ''Authorization''
                     (''AWS4-HMAC-SHA256 Credential='' @ accessKeyId cred @ ''/'' @
                      credentialScope now cred @ '', SignedHeaders='' @ signedHeaders shs @
                      '', Signature='' @ signature))))"


text \<open>
  \<open>signRequest\<close> writes its entries into the \<open>headers\<close> object it is given and returns
  that object. With the header objects held in a store under their references, an
  invocation on the reference \<open>ref\<close> leaves the signed map in the store under \<open>ref\<close> and
  returns \<open>ref\<close>; \<open>new URL\<close> throws before the first write.
\<close>

type_synonym heap = "nat \<Rightarrow> headers"

definition signRequest_in_place ::
  "platform \<Rightarrow> js_date \<Rightarrow> string \<Rightarrow> string \<Rightarrow> nat \<Rightarrow> js_body \<Rightarrow> credentials \<Rightarrow> heap
     \<Rightarrow> (js_error + nat) \<times> heap" where
  "signRequest_in_place P now method url ref body cred h =
     (case signRequest P now method url (h ref) body cred of
        Inl e \<Rightarrow> (Inl e, h)
      | Inr out \<Rightarrow> (Inr ref, h(ref := out)))"

section \<open>HTTP requests sent with \<open>fetch\<close>\<close>

datatype form_part = FilePart bytes string string | TextPart string

datatype body_init = NoFetchBody | RawBody js_body | FormBody "(string \<times> form_part) list"

record fetch_request =
  fetch_url :: string
  fetch_method :: string
  fetch_headers :: headers
  fetch_body :: body_init

text \<open>
  A response: its status, the text of its body (what \<open>response.text()\<close> resolves to)
  and \<open>response.headers.get\<close>. \<open>fetch\<close> itself is the network: it answers a request
  with a response or throws.
\<close>

record fetch_response =
  status :: nat
  text_of :: string
  headers_get :: "string \<Rightarrow> string option"

type_synonym fetch = "fetch_request \<Rightarrow> js_error + fetch_response"

definition ok :: "fetch_response \<Rightarrow> bool" where
  "ok response \<longleftrightarrow> 200 \<le> status response \<and> status response \<le> 299"

text \<open>
  \<open>parseInt(s)\<close> without a radix, on ASCII text: leading white space, a sign, a
  \<open>0x\<close> prefix for radix 16, then the longest run of digits; \<open>None\<close> is \<open>NaN\<close>.
\<close>

definition is_space :: "char \<Rightarrow> bool" where
  "is_space c \<longleftrightarrow> c \<in> {CHR 0x09, CHR 0x0A, CHR 0x0B, CHR 0x0C, CHR 0x0D, CHR '' ''}"

definition digit_val :: "char \<Rightarrow> nat" where
  "digit_val c =
     (let n = (of_char c :: nat) in
      if 48 \<le> n \<and> n \<le> 57 then n - 48
      else if 97 \<le> n \<and> n \<le> 102 then n - 87
      else if 65 \<le> n \<and> n \<le> 70 then n - 55
      else 16)"

definition is_digit :: "nat \<Rightarrow> char \<Rightarrow> bool" where
  "is_digit radix c \<longleftrightarrow> digit_val c < radix"

definition digits_value :: "nat \<Rightarrow> string \<Rightarrow> nat" where
  "digits_value radix ds = foldl (\<lambda>acc c. acc * radix + digit_val c) 0 ds"

definition parseInt :: "string \<Rightarrow> int option" where
  "parseInt s =
     (let s1 = dropWhile is_space s;
          neg = (take 1 s1 = ''-'');
          s2 = (if take 1 s1 = ''-'' \<or> take 1 s1 = ''+'' then drop 1 s1 else s1);
          hex = (take 2 s2 = ''0x'' \<or> take 2 s2 = ''0X'');
          radix = (if hex then 16 else 10);
          s3 = (if hex then drop 2 s2 else s2);
          ds = takeWhile (is_digit radix) s3
      in if ds = [] then None
         else Some ((if neg then - 1 else 1) * int (digits_value radix ds)))"

text \<open>\<open>parseInt(x)\<close> for an \<open>x\<close> that may be \<open>undefined\<close> or \<open>null\<close>.\<close>

definition parseInt_opt :: "string option \<Rightarrow> int option" where
  "parseInt_opt x = (case x of None \<Rightarrow> None | Some s \<Rightarrow> parseInt s)"

text \<open>\<open>n || d\<close> for a number \<open>n\<close>: \<open>NaN\<close> and \<open>0\<close> are falsy.\<close>

definition or_default :: "int option \<Rightarrow> int \<Rightarrow> int" where
  "or_default n d = (case n of None \<Rightarrow> d | Some k \<Rightarrow> if k = 0 then d else k)"

text \<open>Truthiness of a value that is a string, \<open>null\<close> or \<open>undefined\<close>.\<close>

definition str_truthy :: "string option \<Rightarrow> bool" where
  "str_truthy x \<longleftrightarrow> (case x of None \<Rightarrow> False | Some s \<Rightarrow> s \<noteq> [])"

section \<open>functions/utils/s3client.js: the client\<close>

record S3Client =
  this_endpoint :: string
  this_region :: string
  this_bucket :: string
  this_accessKeyId :: string
  this_secretAccessKey :: string

definition getUrl :: "S3Client \<Rightarrow> string \<Rightarrow> string" where
  "getUrl this key = this_endpoint this @ ''/'' @ this_bucket this @ ''/'' @ key"

definition getCredentials :: "S3Client \<Rightarrow> credentials" where
  "getCredentials this =
     \<lparr>accessKeyId = this_accessKeyId this, secretAccessKey = this_secretAccessKey this,
      region = this_region this, service = ''s3''\<rparr>"

text \<open>
  \<open>getObject(key, options)\<close>: \<open>Inr None\<close> is the returned \<open>null\<close>, \<open>Inr (Some r)\<close> the
  returned response, \<open>Inl e\<close> a thrown exception. \<open>rng\<close> is \<open>options.range\<close>.
\<close>

definition getObject ::
  "platform \<Rightarrow> js_date \<Rightarrow> fetch \<Rightarrow> S3Client \<Rightarrow> string \<Rightarrow> string option
     \<Rightarrow> js_error + fetch_response option" where
  "getObject P now fetch this key rng =
     (let url = getUrl this key;
          hdrs = (if str_truthy rng then obj_set [] ''range'' (the rng) else [])
      in case signRequest P now ''GET'' url hdrs NoBody (getCredentials this) of
           Inl e \<Rightarrow> Inl e
         | Inr signed \<Rightarrow>
             (case fetch \<lparr>fetch_url = url, fetch_method = ''GET'', fetch_headers = signed,
                          fetch_body = NoFetchBody\<rparr> of
                Inl e \<Rightarrow> Inl e
              | Inr response \<Rightarrow>
                  if \<not> ok response \<and> status response \<noteq> 206 then
                    (if status response = 404 then Inr None
                     else Inl (JsError (''S3 GetObject failed ('' @ decimal (status response) @
                                        ''): '' @ text_of response)))
                  else Inr (Some response)))"

definition deleteObject ::
  "platform \<Rightarrow> js_date \<Rightarrow> fetch \<Rightarrow> S3Client \<Rightarrow> string \<Rightarrow> js_error + bool" where
  "deleteObject P now fetch this key =
     (let url = getUrl this key
      in case signRequest P now ''DELETE'' url [] NoBody (getCredentials this) of
           Inl e \<Rightarrow> Inl e
         | Inr signed \<Rightarrow>
             (case fetch \<lparr>fetch_url = url, fetch_method = ''DELETE'', fetch_headers = signed,
                          fetch_body = NoFetchBody\<rparr> of
                Inl e \<Rightarrow> Inl e
              | Inr response \<Rightarrow>
                  if \<not> ok response \<and> status response \<noteq> 204 then
                    Inl (JsError (''S3 DeleteObject failed ('' @ decimal (status response) @
                                  ''): '' @ text_of response))
                  else Inr True))"

record head_info =
  head_contentLength :: "int option"
  head_contentType :: "string option"
  head_etag :: "string option"
  head_lastModified :: "string option"

definition headObject ::
  "platform \<Rightarrow> js_date \<Rightarrow> fetch \<Rightarrow> S3Client \<Rightarrow> string \<Rightarrow> js_error + head_info option" where
  "headObject P now fetch this key =
     (let url = getUrl this key
      in case signRequest P now ''HEAD'' url [] NoBody (getCredentials this) of
           Inl e \<Rightarrow> Inl e
         | Inr signed \<Rightarrow>
             (case fetch \<lparr>fetch_url = url, fetch_method = ''HEAD'', fetch_headers = signed,
                          fetch_body = NoFetchBody\<rparr> of
                Inl e \<Rightarrow> Inl e
              | Inr response \<Rightarrow>
                  if \<not> ok response then
                    (if status response = 404 then Inr None
                     else Inl (JsError (''S3 HeadObject failed ('' @ decimal (status response) @
                                        '')'')))
                  else Inr (Some
                    \<lparr>head_contentLength =
                       parseInt (if str_truthy (headers_get response ''content-length'')
                                 then the (headers_get response ''content-length'') else ''0''),
                     head_contentType = headers_get response ''content-type'',
                     head_etag = headers_get response ''etag'',
                     head_lastModified = headers_get response ''last-modified''\<rparr>)))"


section \<open>The key-value store and the environment\<close>

text \<open>
  The store binding \<open>env.img_url\<close>: its entries (a text and the \<open>expirationTtl\<close> it
  was written with), and for every key whether a \<open>get\<close> or a \<open>put\<close> of it throws
  (\<open>Some e\<close>) or not.
\<close>

record kv_store =
  entries :: "string \<rightharpoonup> string \<times> nat"
  get_failure :: "string \<Rightarrow> js_error option"
  put_failure :: "string \<Rightarrow> js_error option"

definition kv_get :: "kv_store \<Rightarrow> string \<Rightarrow> js_error + string option" where
  "kv_get kv key =
     (case get_failure kv key of
        Some e \<Rightarrow> Inl e
      | None \<Rightarrow> Inr (map_option fst (entries kv key)))"

definition kv_put :: "kv_store \<Rightarrow> string \<Rightarrow> string \<Rightarrow> nat \<Rightarrow> js_error + kv_store" where
  "kv_put kv key v expirationTtl =
     (case put_failure kv key of
        Some e \<Rightarrow> Inl e
      | None \<Rightarrow> Inr (kv\<lparr>entries := (entries kv)(key \<mapsto> (v, expirationTtl))\<rparr>))"

record env =
  GUEST_UPLOAD :: "string option"
  GUEST_MAX_FILE_SIZE :: "string option"
  GUEST_DAILY_LIMIT :: "string option"
  img_url :: "kv_store option"
  DISCORD_WEBHOOK_URL :: "string option"
  DISCORD_BOT_TOKEN :: "string option"
  DISCORD_CHANNEL_ID :: "string option"
  HF_TOKEN :: "string option"
  HF_REPO :: "string option"

text \<open>An incoming request: \<open>request.headers.get\<close>, \<open>request.json()\<close>, \<open>request.url\<close>.\<close>

record request =
  header :: "string \<Rightarrow> string option"
  json :: "js_error + jsval"
  request_url :: string

section \<open>functions/utils/guest.js\<close>

definition getClientIP :: "platform \<Rightarrow> request \<Rightarrow> string" where
  "getClientIP P request =
     (if str_truthy (header request ''CF-Connecting-IP'')
      then the (header request ''CF-Connecting-IP'')
      else if str_truthy
                (map_option (\<lambda>s. trim P (takeWhile (\<lambda>c. c \<noteq> CHR '','') s))
                   (header request ''X-Forwarded-For''))
      then trim P (takeWhile (\<lambda>c. c \<noteq> CHR '','') (the (header request ''X-Forwarded-For'')))
      else if str_truthy (header request ''X-Real-IP'')
      then the (header request ''X-Real-IP'')
      else ''0.0.0.0'')"

definition getTodayKey :: "js_date \<Rightarrow> string" where
  "getTodayKey now = takeWhile (\<lambda>c. c \<noteq> CHR ''T'') (toISOString now)"

text \<open>
  The result object of \<open>checkGuestUpload\<close>; an absent property is \<open>None\<close>. The text of
  \<open>reason\<close> is represented by which of the three messages it is and the number printed
  in it.
\<close>

datatype guest_reason = GuestDisabled | GuestTooLarge int | GuestLimitReached int

record guest_check =
  allowed :: bool
  reason :: "guest_reason option"
  status_code :: "nat option"
  remaining :: "int option"

definition guest_key :: "platform \<Rightarrow> js_date \<Rightarrow> request \<Rightarrow> string" where
  "guest_key P now request = ''guest:'' @ getClientIP P request @ '':'' @ getTodayKey now"

definition checkGuestUpload ::
  "platform \<Rightarrow> js_date \<Rightarrow> request \<Rightarrow> env \<Rightarrow> int \<Rightarrow> guest_check" where
  "checkGuestUpload P now request env fileSize =
     (if GUEST_UPLOAD env \<noteq> Some ''true'' then
        \<lparr>allowed = False, reason = Some GuestDisabled, status_code = Some 401,
         remaining = None\<rparr>
      else
        let maxSize = or_default (parseInt_opt (GUEST_MAX_FILE_SIZE env)) (5 * 1024 * 1024) in
        if fileSize > maxSize then
          \<lparr>allowed = False, reason = Some (GuestTooLarge maxSize), status_code = Some 413,
           remaining = None\<rparr>
        else
          let dailyLimit = or_default (parseInt_opt (GUEST_DAILY_LIMIT env)) 10;
              kvKey = guest_key P now request
          in case img_url env of
               None \<Rightarrow>
                 \<lparr>allowed = True, reason = None, status_code = None, remaining = None\<rparr>
             | Some kv \<Rightarrow>
                 (case kv_get kv kvKey of
                    Inl e \<Rightarrow>
                      \<lparr>allowed = True, reason = None, status_code = None, remaining = None\<rparr>
                  | Inr countStr \<Rightarrow>
                      let currentCount = or_default (parseInt_opt countStr) 0 in
                      if currentCount \<ge> dailyLimit then
                        \<lparr>allowed = False, reason = Some (GuestLimitReached dailyLimit),
                         status_code = Some 429, remaining = Some 0\<rparr>
                      else
                        \<lparr>allowed = True, reason = None, status_code = None,
                         remaining = Some (dailyLimit - currentCount)\<rparr>))"



section \<open>Reading JSON values\<close>

text \<open>\<open>!v\<close> is \<open>\<not> js_truthy v\<close>.\<close>

fun js_truthy :: "jsval \<Rightarrow> bool" where
  "js_truthy JUndefined = False"
| "js_truthy JNull = False"
| "js_truthy (JBool b) = b"
| "js_truthy (JNum n) = (n \<noteq> 0)"
| "js_truthy (JStr s) = (s \<noteq> [])"
| "js_truthy (JArr xs) = True"
| "js_truthy (JObj kvs) = True"

text \<open>
  \<open>v.name\<close> for the property names the source reads (\<open>fileName\<close>, \<open>message\<close>,
  \<open>attachments\<close>, \<open>id\<close>, ...), none of which a string, number, boolean or array has:
  a \<open>TypeError\<close> on \<open>null\<close> and \<open>undefined\<close>, the entry of an object, else
  \<open>undefined\<close>. The entries of an object have distinct keys.
\<close>

fun js_get :: "jsval \<Rightarrow> string \<Rightarrow> js_error + jsval" where
  "js_get JUndefined name = Inl TypeError"
| "js_get JNull name = Inl TypeError"
| "js_get (JObj kvs) name = Inr (case map_of kvs name of Some v \<Rightarrow> v | None \<Rightarrow> JUndefined)"
| "js_get v name = Inr JUndefined"

text \<open>\<open>v?.[0]\<close>.\<close>

fun js_first :: "jsval \<Rightarrow> jsval" where
  "js_first (JArr (x # xs)) = x"
| "js_first (JStr (c # cs)) = JStr [c]"
| "js_first (JObj kvs) = (case map_of kvs ''0'' of Some v \<Rightarrow> v | None \<Rightarrow> JUndefined)"
| "js_first v = JUndefined"

text \<open>
  A variable bound by destructuring, \<open>const { name } = v\<close>, once \<open>v\<close> is known
  to be neither \<open>null\<close> nor \<open>undefined\<close>.
\<close>

definition js_field :: "jsval \<Rightarrow> string \<Rightarrow> jsval" where
  "js_field v name = (case js_get v name of Inr x \<Rightarrow> x | Inl e \<Rightarrow> JUndefined)"

text \<open>\<open>v > m\<close> for a number \<open>m\<close>: both sides are converted to numbers.\<close>

definition js_number :: "platform \<Rightarrow> jsval \<Rightarrow> int option" where
  "js_number P v =
     (case v of
        JNum n \<Rightarrow> Some n
      | JBool b \<Rightarrow> Some (if b then 1 else 0)
      | JNull \<Rightarrow> Some 0
      | JUndefined \<Rightarrow> None
      | _ \<Rightarrow> toNumber P v)"

definition js_gt :: "platform \<Rightarrow> jsval \<Rightarrow> int \<Rightarrow> bool" where
  "js_gt P v m \<longleftrightarrow> (case js_number P v of Some n \<Rightarrow> n > m | None \<Rightarrow> False)"

section \<open>functions/api/chunked-upload/init.js\<close>

definition CHUNK_SIZE :: int where
  "CHUNK_SIZE = 5 * 1024 * 1024"

definition MAX_FILE_SIZE :: int where
  "MAX_FILE_SIZE = 100 * 1024 * 1024"

text \<open>
  A \<open>Response\<close>: its status and the object that is serialised into its body. The text
  of an \<open>error\<close> is represented by which message it is.
\<close>

datatype error_text =
  GuestNoChunkedUpload | MissingParameters | FileTooLarge | MissingUploadId | TaskNotFound
  | Thrown js_error

datatype response_body =
  ErrorBody error_text
  | InitBody bool string int
  | StatusBody bool jsval

record response =
  response_status :: nat
  response_body :: response_body

text \<open>\<open>rnd\<close> is the 16 bytes \<open>crypto.getRandomValues\<close> fills the array with.\<close>

definition generateUploadId :: "bytes \<Rightarrow> string" where
  "generateUploadId rnd = concat (map hex2 rnd)"

definition validModes :: "string list" where
  "validModes = [''telegram'', ''r2'', ''s3'', ''discord'', ''huggingface'']"

definition normalizedStorage :: "jsval \<Rightarrow> string" where
  "normalizedStorage storageMode =
     (case storageMode of
        JStr m \<Rightarrow> if m \<in> set validModes then m else ''telegram''
      | _ \<Rightarrow> ''telegram'')"

definition uploadTask ::
  "string \<Rightarrow> jsval \<Rightarrow> jsval \<Rightarrow> jsval \<Rightarrow> jsval \<Rightarrow> string \<Rightarrow> int \<Rightarrow> jsval" where
  "uploadTask uploadId fileName fileSize fileType totalChunks storage createdAt =
     JObj [(''uploadId'', JStr uploadId), (''fileName'', fileName), (''fileSize'', fileSize),
           (''fileType'', fileType), (''totalChunks'', totalChunks),
           (''storageMode'', JStr storage), (''uploadedChunks'', JArr []),
           (''createdAt'', JNum createdAt), (''status'', JStr ''pending'')]"

text \<open>
  What the handlers take from outside: the answers of the authentication module
  (\<open>utils/auth.js\<close>), the clock and the random bytes.
\<close>

record outside =
  isAuthRequired :: bool
  authenticated :: bool
  date_now :: js_date
  date_now_ms :: int
  random_bytes :: bytes

definition onRequestPost :: "platform \<Rightarrow> outside \<Rightarrow> request \<Rightarrow> env \<Rightarrow> response \<times> env" where
  "onRequestPost P out request env =
     (let isAdmin = (if isAuthRequired out then authenticated out else True) in
      if \<not> isAdmin \<and> \<not> allowed (checkGuestUpload P (date_now out) request env 0) then
        (\<lparr>response_status = 403, response_body = ErrorBody GuestNoChunkedUpload\<rparr>, env)
      else
        case json request of
          Inl e \<Rightarrow> (\<lparr>response_status = 500, response_body = ErrorBody (Thrown e)\<rparr>, env)
        | Inr body \<Rightarrow>
            (case js_get body ''fileName'' of
               Inl e \<Rightarrow> (\<lparr>response_status = 500, response_body = ErrorBody (Thrown e)\<rparr>, env)
             | Inr fileName \<Rightarrow>
                 let fileSize = js_field body ''fileSize'';
                     fileType = js_field body ''fileType'';
                     totalChunks = js_field body ''totalChunks'';
                     storageMode = js_field body ''storageMode''
                 in
                 if \<not> js_truthy fileName \<or> \<not> js_truthy fileSize \<or> \<not> js_truthy totalChunks then
                   (\<lparr>response_status = 400, response_body = ErrorBody MissingParameters\<rparr>, env)
                 else if js_gt P fileSize MAX_FILE_SIZE then
                   (\<lparr>response_status = 400, response_body = ErrorBody FileTooLarge\<rparr>, env)
                 else
                   let uploadId = generateUploadId (random_bytes out);
                       task = uploadTask uploadId fileName fileSize fileType totalChunks
                                (normalizedStorage storageMode) (date_now_ms out)
                   in (case img_url env of
                        None \<Rightarrow>
                          (\<lparr>response_status = 500, response_body = ErrorBody (Thrown TypeError)\<rparr>,
                           env)
                      | Some kv \<Rightarrow>
                          (case kv_put kv (''upload:'' @ uploadId) (JSON_stringify P task) 3600 of
                             Inl e \<Rightarrow>
                               (\<lparr>response_status = 500, response_body = ErrorBody (Thrown e)\<rparr>,
                                env)
                           | Inr kv' \<Rightarrow>
                               (\<lparr>response_status = 200,
                                 response_body = InitBody True uploadId CHUNK_SIZE\<rparr>,
                                env\<lparr>img_url := Some kv'\<rparr>)))))"

text \<open>
  \<open>onRequestGet\<close>: \<open>uploadId\<close> is \<open>url.searchParams.get('uploadId')\<close>, the first pair
  of that name. \<open>StatusBody True taskData\<close> is the object \<open>{success: true, ...taskData}\<close>.
\<close>

definition onRequestGet :: "platform \<Rightarrow> request \<Rightarrow> env \<Rightarrow> js_error + response" where
  "onRequestGet P request env =
     (case newURL P (request_url request) of
        None \<Rightarrow> Inl TypeError
      | Some parsedUrl \<Rightarrow>
          let uploadId = map_of (searchParams parsedUrl) ''uploadId'' in
          if \<not> str_truthy uploadId then
            Inr \<lparr>response_status = 400, response_body = ErrorBody MissingUploadId\<rparr>
          else
            (case img_url env of
              None \<Rightarrow> Inr \<lparr>response_status = 500, response_body = ErrorBody (Thrown TypeError)\<rparr>
            | Some kv \<Rightarrow>
                (case kv_get kv (''upload:'' @ the uploadId) of
                   Inl e \<Rightarrow> Inr \<lparr>response_status = 500, response_body = ErrorBody (Thrown e)\<rparr>
                 | Inr None \<Rightarrow>
                     Inr \<lparr>response_status = 404, response_body = ErrorBody TaskNotFound\<rparr>
                 | Inr (Some txt) \<Rightarrow>
                     (case JSON_parse P txt of
                        Inl e \<Rightarrow>
                          Inr \<lparr>response_status = 500, response_body = ErrorBody (Thrown e)\<rparr>
                      | Inr taskData \<Rightarrow>
                          if \<not> js_truthy taskData then
                            Inr \<lparr>response_status = 404, response_body = ErrorBody TaskNotFound\<rparr>
                          else
                            Inr \<lparr>response_status = 200,
                                 response_body = StatusBody True taskData\<rparr>))))"


section \<open>The Discord storage module\<close>

text \<open>
  The result object of an upload. The text of \<open>error\<close> is either a value taken from
  the provider's answer or an \<open>HTTP\<close> status line (\<open>ErrorValue\<close>), the message of a
  caught exception, or one of the two fixed messages.
\<close>

datatype upload_error =
  ErrorValue jsval | ErrorCaught js_error | NoAttachment | NotConfigured

datatype upload_result =
  UploadOk jsval jsval jsval jsval jsval
  | UploadFailed upload_error

text \<open>
  The fields of \<open>UploadOk\<close> are \<open>channelId\<close>, \<open>messageId\<close>, \<open>attachmentId\<close>,
  \<open>filename\<close> and \<open>size\<close>. Every function that calls \<open>fetch\<close> returns, with its
  result, the list of the requests it has sent.
\<close>

definition upload_form :: "platform \<Rightarrow> bytes \<Rightarrow> string \<Rightarrow> string \<Rightarrow> body_init" where
  "upload_form P fileBuffer filename contentType =
     FormBody
       [(''files[0]'', FilePart fileBuffer contentType filename),
        (''payload_json'',
         TextPart (JSON_stringify P
           (JObj [(''content'', JStr []),
                  (''attachments'', JArr [JObj [(''id'', JNum 0), (''filename'', JStr filename)]])])))]"

definition upload_answer :: "platform \<Rightarrow> js_error + fetch_response \<Rightarrow> upload_result" where
  "upload_answer P answer =
     (case answer of
        Inl e \<Rightarrow> UploadFailed (ErrorCaught e)
      | Inr response \<Rightarrow>
          if \<not> ok response then
            (let err = (case JSON_parse P (text_of response) of
                          Inl e \<Rightarrow> JObj [] | Inr v \<Rightarrow> v)
             in case js_get err ''message'' of
                  Inl e \<Rightarrow> UploadFailed (ErrorCaught e)
                | Inr m \<Rightarrow>
                    UploadFailed (ErrorValue
                      (if js_truthy m then m
                       else JStr (''HTTP '' @ decimal (status response)))))
          else
            (case JSON_parse P (text_of response) of
               Inl e \<Rightarrow> UploadFailed (ErrorCaught e)
             | Inr message \<Rightarrow>
                 (case js_get message ''attachments'' of
                    Inl e \<Rightarrow> UploadFailed (ErrorCaught e)
                  | Inr attachments \<Rightarrow>
                      let attachment = js_first attachments in
                      if \<not> js_truthy attachment then UploadFailed NoAttachment
                      else
                        UploadOk (js_field message ''channel_id'') (js_field message ''id'')
                          (js_field attachment ''id'') (js_field attachment ''filename'')
                          (js_field attachment ''size''))))"

definition uploadViaWebhook ::
  "platform \<Rightarrow> fetch \<Rightarrow> bytes \<Rightarrow> string \<Rightarrow> string \<Rightarrow> string
     \<Rightarrow> upload_result \<times> fetch_request list" where
  "uploadViaWebhook P fetch fileBuffer filename contentType webhookUrl =
     (let req = \<lparr>fetch_url = webhookUrl @ ''?wait=true'', fetch_method = ''POST'', fetch_headers = [],
                 fetch_body = upload_form P fileBuffer filename contentType\<rparr>
      in (upload_answer P (fetch req), [req]))"

definition uploadViaBot ::
  "platform \<Rightarrow> fetch \<Rightarrow> bytes \<Rightarrow> string \<Rightarrow> string \<Rightarrow> string \<Rightarrow> string
     \<Rightarrow> upload_result \<times> fetch_request list" where
  "uploadViaBot P fetch fileBuffer filename contentType botToken channelId =
     (let req = \<lparr>fetch_url = ''https://discord.com/api/v10/channels/'' @ channelId @ ''/messages'',
                 fetch_method = ''POST'',
                 fetch_headers = [(''Authorization'', ''Bot '' @ botToken)],
                 fetch_body = upload_form P fileBuffer filename contentType\<rparr>
      in (upload_answer P (fetch req), [req]))"

definition uploadToDiscord ::
  "platform \<Rightarrow> fetch \<Rightarrow> bytes \<Rightarrow> string \<Rightarrow> string \<Rightarrow> env
     \<Rightarrow> upload_result \<times> fetch_request list" where
  "uploadToDiscord P fetch fileBuffer filename contentType env =
     (if str_truthy (DISCORD_WEBHOOK_URL env) then
        uploadViaWebhook P fetch fileBuffer filename contentType (the (DISCORD_WEBHOOK_URL env))
      else if str_truthy (DISCORD_BOT_TOKEN env) \<and> str_truthy (DISCORD_CHANNEL_ID env) then
        uploadViaBot P fetch fileBuffer filename contentType (the (DISCORD_BOT_TOKEN env))
          (the (DISCORD_CHANNEL_ID env))
      else (UploadFailed NotConfigured, []))"

text \<open>
  The delete operations return \<open>Inr b\<close> for the boolean \<open>b\<close>, or \<open>Inl e\<close> when the
  exception \<open>e\<close> leaves the function.
\<close>

definition deleteDiscordMessage :: "fetch \<Rightarrow> string \<Rightarrow> string \<Rightarrow> env \<Rightarrow> js_error + bool" where
  "deleteDiscordMessage fetch channelId messageId env =
     (if \<not> str_truthy (DISCORD_BOT_TOKEN env) then Inr False
      else
        case fetch \<lparr>fetch_url = ''https://discord.com/api/v10/channels/'' @ channelId @
                           ''/messages/'' @ messageId,
                     fetch_method = ''DELETE'',
                     fetch_headers = [(''Authorization'', ''Bot '' @ the (DISCORD_BOT_TOKEN env))],
                     fetch_body = NoFetchBody\<rparr> of
          Inl e \<Rightarrow> Inr False
        | Inr response \<Rightarrow> Inr (ok response \<or> status response = 204))"

section \<open>The HuggingFace storage module\<close>

definition deleteHuggingFaceFile :: "platform \<Rightarrow> fetch \<Rightarrow> string \<Rightarrow> env \<Rightarrow> js_error + bool" where
  "deleteHuggingFaceFile P fetch pathInRepo env =
     (if \<not> str_truthy (HF_TOKEN env) \<or> \<not> str_truthy (HF_REPO env) then Inr False
      else
        let headerLine = JSON_stringify P
              (JObj [(''key'', JStr ''header''),
                     (''value'', JObj [(''summary'', JStr (''Delete '' @ pathInRepo))])]);
            deleteLine = JSON_stringify P
              (JObj [(''key'', JStr ''deletedFile''),
                     (''value'', JObj [(''path'', JStr pathInRepo)])]);
            body = headerLine @ [CHR 0x0A] @ deleteLine
        in case fetch \<lparr>fetch_url = ''https://huggingface.co/api/datasets/'' @ the (HF_REPO env) @
                              ''/commit/main'',
                        fetch_method = ''POST'',
                        fetch_headers = [(''Authorization'', ''Bearer '' @ the (HF_TOKEN env)),
                                        (''Content-Type'', ''application/x-ndjson'')],
                        fetch_body = RawBody (TextBody body)\<rparr> of
             Inl e \<Rightarrow> Inr False
           | Inr response \<Rightarrow> Inr (ok response))"


section \<open>Notions used in the statements\<close>

text \<open>
  A consistent comparator, as ECMAScript defines it: comparing equal is reflexive,
  symmetric and transitive, comparing less and comparing greater are transitive. The
  order in which \<open>sort\<close> leaves an array is only specified for such comparators.
\<close>

definition consistent :: "('a \<Rightarrow> 'a \<Rightarrow> int) \<Rightarrow> bool" where
  "consistent cmp \<longleftrightarrow>
     (\<forall>a. cmp a a = 0) \<and>
     (\<forall>a b. cmp a b = 0 \<longrightarrow> cmp b a = 0) \<and>
     (\<forall>a b c. cmp a b = 0 \<and> cmp b c = 0 \<longrightarrow> cmp a c = 0) \<and>
     (\<forall>a b c. cmp a b < 0 \<and> cmp b c < 0 \<longrightarrow> cmp a c < 0) \<and>
     (\<forall>a b c. cmp a b > 0 \<and> cmp b c > 0 \<longrightarrow> cmp a c > 0)"

text \<open>
  The local variables \<open>maxSize\<close>, \<open>dailyLimit\<close> and \<open>currentCount\<close> of
  \<open>checkGuestUpload\<close>, and a store none of whose operations throws.
\<close>

definition maxSize :: "env \<Rightarrow> int" where
  "maxSize env = or_default (parseInt_opt (GUEST_MAX_FILE_SIZE env)) (5 * 1024 * 1024)"

definition dailyLimit :: "env \<Rightarrow> int" where
  "dailyLimit env = or_default (parseInt_opt (GUEST_DAILY_LIMIT env)) 10"


definition reliable :: "kv_store \<Rightarrow> bool" where
  "reliable kv \<longleftrightarrow> (\<forall>k. get_failure kv k = None) \<and> (\<forall>k. put_failure kv k = None)"


text \<open>
  A caller is admitted by \<open>onRequestPost\<close> when no authentication is required, or the
  caller is authenticated, or the guest check allows an upload of size 0. The JSON body
  can be destructured when it is neither \<open>null\<close> nor \<open>undefined\<close>.
\<close>

definition admitted :: "platform \<Rightarrow> outside \<Rightarrow> request \<Rightarrow> env \<Rightarrow> bool" where
  "admitted P out request env \<longleftrightarrow>
     (if isAuthRequired out then authenticated out else True) \<or>
     allowed (checkGuestUpload P (date_now out) request env 0)"

definition present_body :: "jsval \<Rightarrow> bool" where
  "present_body body \<longleftrightarrow> body \<noteq> JNull \<and> body \<noteq> JUndefined"

text \<open>The one request an upload through the webhook sends.\<close>

definition webhook_request :: "platform \<Rightarrow> bytes \<Rightarrow> string \<Rightarrow> string \<Rightarrow> env \<Rightarrow> fetch_request" where
  "webhook_request P fileBuffer filename contentType env =
     \<lparr>fetch_url = the (DISCORD_WEBHOOK_URL env) @ ''?wait=true'', fetch_method = ''POST'',
      fetch_headers = [], fetch_body = upload_form P fileBuffer filename contentType\<rparr>"

text \<open>
  What the status query takes for a missing session: the store has no entry under the
  key, or the entry parses to a JSON value that JavaScript takes for false (\<open>null\<close>,
  \<open>false\<close>, \<open>0\<close> or the empty string).
\<close>

definition no_session :: "platform \<Rightarrow> kv_store \<Rightarrow> string \<Rightarrow> bool" where
  "no_session P kv key \<longleftrightarrow>
     (case entries kv key of
        None \<Rightarrow> True
      | Some (txt, ttl) \<Rightarrow>
          (case JSON_parse P txt of Inr v \<Rightarrow> \<not> js_truthy v | Inl e \<Rightarrow> False))"

text \<open>
  A network answers a method with a response when every request of that method gets
  that response.
\<close>

definition answers :: "fetch \<Rightarrow> string \<Rightarrow> fetch_response \<Rightarrow> bool" where
  "answers fetch method response \<longleftrightarrow>
     (\<forall>req. fetch_method req = method \<longrightarrow> fetch req = Inr response)"

text \<open>The order on pairs that the query comparator decides: by key, then by value.\<close>

definition pair_le :: "platform \<Rightarrow> string \<times> string \<Rightarrow> string \<times> string \<Rightarrow> bool" where
  "pair_le P a b \<longleftrightarrow>
     localeCompare P (fst a) (fst b) < 0 \<or>
     (localeCompare P (fst a) (fst b) = 0 \<and> localeCompare P (snd a) (snd b) \<le> 0)"

section \<open>The signing algorithm as the specification words it\<close>

text \<open>
  URI encoding: the unreserved characters \<open>A-Z a-z 0-9 - _ . ~\<close> stay, every other
  byte is percent-encoded; in a path the slash stays as well.
\<close>

definition rfc3986_unreserved :: "char \<Rightarrow> bool" where
  "rfc3986_unreserved c \<longleftrightarrow>
     c \<in> set ''ABCDEFGHIJKLMNOPQRSTUVWXYZabcdefghijklmnopqrstuvwxyz0123456789-_.~''"

definition spec_uri_encode :: "bool \<Rightarrow> string \<Rightarrow> string" where
  "spec_uri_encode keep_slash s =
     concat (map (\<lambda>c. if rfc3986_unreserved c \<or> (keep_slash \<and> c = CHR ''/'') then [c]
                      else percent c) s)"

text \<open>
  The canonical request, from the method, the path, the sorted query pairs, the sorted
  lower-cased and trimmed header pairs and the content hash.
\<close>

definition spec_canonical_request ::
  "string \<Rightarrow> string \<Rightarrow> (string \<times> string) list \<Rightarrow> headers \<Rightarrow> string \<Rightarrow> string" where
  "spec_canonical_request method path query hs content_hash =
     method @ [CHR 0x0A] @
     spec_uri_encode True path @ [CHR 0x0A] @
     join ''&'' (map (\<lambda>(k, v). spec_uri_encode False k @ ''='' @ spec_uri_encode False v) query)
       @ [CHR 0x0A] @
     concat (map (\<lambda>(k, v). k @ '':'' @ v @ [CHR 0x0A]) hs) @ [CHR 0x0A] @
     join '';'' (map fst hs) @ [CHR 0x0A] @
     content_hash"

definition spec_date :: "js_date \<Rightarrow> string" where
  "spec_date now = pad4 (utcFullYear now) @ pad2 (utcMonth now) @ pad2 (utcDate now)"

definition spec_timestamp :: "js_date \<Rightarrow> string" where
  "spec_timestamp now =
     spec_date now @ ''T'' @ pad2 (utcHours now) @ pad2 (utcMinutes now) @
     pad2 (utcSeconds now) @ ''Z''"

definition spec_scope :: "js_date \<Rightarrow> credentials \<Rightarrow> string" where
  "spec_scope now cred =
     spec_date now @ ''/'' @ region cred @ ''/'' @ service cred @ ''/aws4_request''"

definition spec_string_to_sign :: "platform \<Rightarrow> js_date \<Rightarrow> credentials \<Rightarrow> string \<Rightarrow> string" where
  "spec_string_to_sign P now cred creq =
     ''AWS4-HMAC-SHA256'' @ [CHR 0x0A] @ spec_timestamp now @ [CHR 0x0A] @
     spec_scope now cred @ [CHR 0x0A] @ arrayBufferToHex (digestSHA256 P creq)"

definition spec_signing_key :: "platform \<Rightarrow> js_date \<Rightarrow> credentials \<Rightarrow> bytes" where
  "spec_signing_key P now cred =
     signHMAC P
       (signHMAC P
          (signHMAC P
             (signHMAC P (''AWS4'' @ secretAccessKey cred) (spec_date now))
             (region cred))
          (service cred))
       ''aws4_request''"

definition spec_authorization ::
  "platform \<Rightarrow> js_date \<Rightarrow> string \<Rightarrow> string \<Rightarrow> (string \<times> string) list \<Rightarrow> headers
     \<Rightarrow> js_body \<Rightarrow> credentials \<Rightarrow> string" where
  "spec_authorization P now method path query hs body cred =
     (let content_hash = arrayBufferToHex (digestSHA256 P (body_bytes body));
          creq = spec_canonical_request method path query hs content_hash;
          signature = arrayBufferToHex
                        (signHMAC P (spec_signing_key P now cred)
                           (spec_string_to_sign P now cred creq))
      in ''AWS4-HMAC-SHA256 Credential='' @ accessKeyId cred @ ''/'' @ spec_scope now cred @
         '', SignedHeaders='' @ join '';'' (map fst hs) @ '', Signature='' @ signature)"

section \<open>A platform to run the model on\<close>

text \<open>
  An instance of the platform functions on ASCII text, for evaluating the model on
  examples: strings compare by their bytes, the URL parser knows one address, and the
  two digests are stand-ins that only keep a few bytes.
\<close>

definition compare_strings :: "string \<Rightarrow> string \<Rightarrow> int" where
  "compare_strings a b = (if a < b then - 1 else if a = b then 0 else 1)"

definition ascii_lower :: "char \<Rightarrow> char" where
  "ascii_lower c =
     (if 65 \<le> (of_char c :: nat) \<and> (of_char c :: nat) \<le> 90 then char_of (of_char c + 32 :: nat)
      else c)"

definition ascii_trim :: "string \<Rightarrow> string" where
  "ascii_trim s = rev (dropWhile is_space (rev (dropWhile is_space s)))"

definition example_url :: parsed_url where
  "example_url =
     \<lparr>host = ''s3.example.com'', pathname = ''/bucket/my%20file.txt'',
      searchParams = [(''uploadId'', ''7f''), (''b'', ''2''), (''a'', ''1'')]\<rparr>"

definition example_platform :: platform where
  "example_platform =
     \<lparr>digestSHA256 = (\<lambda>d. take 2 (rev d @ ''#!'')),
      signHMAC = (\<lambda>k d. take 2 (d @ k @ ''?+'')),
      toLowerCase = map ascii_lower,
      trim = ascii_trim,
      localeCompare = compare_strings,
      newURL = (\<lambda>u. if u = ''https://s3.example.com/bucket/my file.txt?uploadId=7f&b=2&a=1''
                      then Some example_url else None),
      toNumber = (\<lambda>v. None),
      JSON_stringify = (\<lambda>v. ''{}''),
      JSON_parse = (\<lambda>t. if t = ''{}'' then Inr (JObj []) else Inl TypeError)\<rparr>"

definition example_date :: js_date where
  "example_date =
     \<lparr>utcFullYear = 2024, utcMonth = 3, utcDate = 9, utcHours = 14, utcMinutes = 5,
      utcSeconds = 7, utcMilliseconds = 42\<rparr>"

definition example_credentials :: credentials where
  "example_credentials =
     \<lparr>accessKeyId = ''AKID'', secretAccessKey = ''secret'', region = ''us-east-1'',
      service = ''s3''\<rparr>"

text \<open>The five replacements \<open>uriEncode\<close> makes after \<open>encodeURIComponent\<close>.\<close>

definition escape_more :: "string \<Rightarrow> string" where
  "escape_more encoded = replace_char CHR ''*'' ''%2A''
                      (replace_char CHR '')'' ''%29''
                        (replace_char CHR ''('' ''%28''
                          (replace_char (CHR 0x27) ''%27''
                            (replace_char CHR ''!'' ''%21'' encoded))))"

definition example_request :: request where
  "example_request =
     \<lparr>header = (\<lambda>h. if h = ''CF-Connecting-IP'' then Some ''203.0.113.7'' else None),
      json = Inr (JObj [(''fileName'', JStr ''a.bin''), (''fileSize'', JNum 104857600),
                        (''totalChunks'', JNum 20), (''storageMode'', JStr ''s3'')]),
      request_url = ''https://s3.example.com/bucket/my file.txt?uploadId=7f&b=2&a=1''\<rparr>"



definition empty_store :: kv_store where
  "empty_store =
     \<lparr>entries = Map.empty, get_failure = (\<lambda>k. None), put_failure = (\<lambda>k. None)\<rparr>"

definition failing_store :: kv_store where
  "failing_store =
     \<lparr>entries = Map.empty, get_failure = (\<lambda>k. Some (JsError ''KV unavailable'')),
      put_failure = (\<lambda>k. Some (JsError ''KV unavailable''))\<rparr>"

definition example_env :: env where
  "example_env =
     \<lparr>GUEST_UPLOAD = Some ''true'', GUEST_MAX_FILE_SIZE = None, GUEST_DAILY_LIMIT = Some ''3'',
      img_url = Some empty_store,
      DISCORD_WEBHOOK_URL = Some ''https://discord.com/api/webhooks/1/token'',
      DISCORD_BOT_TOKEN = Some ''bot-token'', DISCORD_CHANNEL_ID = Some ''42'',
      HF_TOKEN = Some ''hf-token'', HF_REPO = Some ''user/files''\<rparr>"

definition example_outside :: outside where
  "example_outside =
     \<lparr>isAuthRequired = False, authenticated = False, date_now = example_date,
      date_now_ms = 1709993107042,
      random_bytes = [CHR 0x00, CHR 0x01, CHR 0x02, CHR 0x03, CHR 0x04, CHR 0x05, CHR 0x06,
                      CHR 0x07, CHR 0x08, CHR 0x09, CHR 0x0A, CHR 0x0B, CHR 0x0C, CHR 0x0D,
                      CHR 0xFE, CHR 0xFF]\<rparr>"

definition example_init :: "response \<times> env" where
  "example_init = onRequestPost example_platform example_outside example_request example_env"

definition example_client :: S3Client where
  "example_client =
     \<lparr>this_endpoint = ''https://s3.example.com'', this_region = ''us-east-1'',
      this_bucket = ''bucket'', this_accessKeyId = ''AKID'', this_secretAccessKey = ''secret''\<rparr>"

definition example_key :: string where
  "example_key = ''my file.txt?uploadId=7f&b=2&a=1''"

text \<open>A network that answers every request with the given status and text.\<close>

definition answer :: "nat \<Rightarrow> string \<Rightarrow> fetch" where
  "answer code txt = (\<lambda>req. Inr \<lparr>status = code, text_of = txt, headers_get = (\<lambda>h. None)\<rparr>)"

text \<open>
  A provider that answers every request with the given status and text, except that its
  answer to a \<open>HEAD\<close> request has no body, as HTTP requires.
\<close>

definition provider :: "nat \<Rightarrow> string \<Rightarrow> fetch" where
  "provider code txt =
     (\<lambda>req. Inr \<lparr>status = code,
                  text_of = (if fetch_method req = ''HEAD'' then [] else txt),
                  headers_get = (\<lambda>h. None)\<rparr>)"

definition example_signed :: headers where
  "example_signed = [(''Range'', '' bytes=0-9 ''), (''X-Amz-Meta-A'', ''1''),
      (''x-amz-date'', ''20240309T140507Z''),
      (''x-amz-content-sha256'', ''2321''), (''host'', ''s3.example.com''),
      (''Authorization'',
       ''AWS4-HMAC-SHA256 Credential=AKID/20240309/us-east-1/s3/aws4_request, SignedHeaders=host;range;x-amz-content-sha256;x-amz-date;x-amz-meta-a, Signature=4157'')]"

text \<open>
  A store in which every reference holds a header object with the same two entries, and
  the map that signing \<open>example_signed\<close> once more leaves.
\<close>

definition example_heap :: heap where
  "example_heap = (\<lambda>ref. [(''Range'', '' bytes=0-9 ''), (''X-Amz-Meta-A'', ''1'')])"

definition signed_again :: headers where
  "signed_again = [(''Range'', '' bytes=0-9 ''), (''X-Amz-Meta-A'', ''1''),
      (''x-amz-date'', ''20240309T140507Z''),
      (''x-amz-content-sha256'', ''2321''), (''host'', ''s3.example.com''),
      (''Authorization'',
       ''AWS4-HMAC-SHA256 Credential=AKID/20240309/us-east-1/s3/aws4_request, SignedHeaders=authorization;host;range;x-amz-content-sha256;x-amz-date;x-amz-meta-a, Signature=4157'')]"

text \<open>
  The platform's \<open>localeCompare\<close> on ASCII letters and digits, as the default collation
  orders them: alphabetically whatever the case, and the lower-case string first among
  strings that differ only in case. With it, a platform whose URL parser knows an address
  with a space in its path and the query keys \<open>a\<close> and \<open>B\<close>; the parser gives the path
  percent-encoded.
\<close>

definition collate :: "string \<Rightarrow> string \<Rightarrow> int" where
  "collate a b =
     (if map ascii_lower a = map ascii_lower b then compare_strings b a
      else compare_strings (map ascii_lower a) (map ascii_lower b))"

definition collating_address :: string where
  "collating_address = ''https://s3.example.com/bucket/my file.txt?a=2&B=1''"

definition collating_url :: parsed_url where
  "collating_url =
     \<lparr>host = ''s3.example.com'', pathname = ''/bucket/my%20file.txt'',
      searchParams = [(''a'', ''2''), (''B'', ''1'')]\<rparr>"

definition collating_platform :: platform where
  "collating_platform =
     example_platform
       \<lparr>localeCompare := collate,
        newURL := (\<lambda>u. if u = collating_address then Some collating_url else None)\<rparr>"

text \<open>
  The sorted header pairs of a request to that address without headers of its own, the
  canonical request that \<open>signRequest\<close> signs for it, and the canonical request with the
  path encoded once and the query pairs in lexicographic order.
\<close>

definition collating_headers :: headers where
  "collating_headers =
     [(''host'', ''s3.example.com''), (''x-amz-content-sha256'', ''2321''),
      (''x-amz-date'', ''20240309T140507Z'')]"

definition signed_canonical_request :: string where
  "signed_canonical_request =
     ''GET\<newline>/bucket/my%2520file.txt\<newline>a=2&B=1\<newline>host:s3.example.com\<newline>x-amz-content-sha256:2321\<newline>x-amz-date:20240309T140507Z\<newline>\<newline>host;x-amz-content-sha256;x-amz-date\<newline>2321''"

definition specified_canonical_request :: string where
  "specified_canonical_request =
     ''GET\<newline>/bucket/my%20file.txt\<newline>B=1&a=2\<newline>host:s3.example.com\<newline>x-amz-content-sha256:2321\<newline>x-amz-date:20240309T140507Z\<newline>\<newline>host;x-amz-content-sha256;x-amz-date\<newline>2321''"

section \<open>Objects, sorting and time stamps\<close>

lemma map_of_obj_set: "map_of (obj_set kvs k v) = (map_of kvs)(k \<mapsto> v)"
  by (induction kvs) (auto simp: fun_eq_iff)

lemma keys_obj_set: "fst ` set (obj_set kvs k v) = insert k (fst ` set kvs)"
  by (simp add: dom_map_of_conv_image_fst [symmetric] map_of_obj_set)

lemma distinct_obj_set: "distinct (map fst kvs) \<Longrightarrow> distinct (map fst (obj_set kvs k v))"
  by (induction kvs) (auto simp: keys_obj_set)

lemma mset_sort_insert: "mset (sort_insert cmp x xs) = add_mset x (mset xs)"
  by (induction xs) auto

lemma mset_js_sort: "mset (js_sort cmp xs) = mset xs"
  unfolding js_sort_def by (induction xs) (auto simp: mset_sort_insert)

lemma set_sort_insert: "set (sort_insert cmp x xs) = insert x (set xs)"
  by (induction xs) auto

lemma sorted_sort_insert:
  assumes total: "\<And>a b. \<not> cmp a b \<le> 0 \<Longrightarrow> cmp b a \<le> 0"
    and trans: "\<And>a b c. cmp a b \<le> 0 \<Longrightarrow> cmp b c \<le> 0 \<Longrightarrow> cmp a c \<le> 0"
    and xs: "sorted_wrt (\<lambda>a b. cmp a b \<le> 0) xs"
  shows "sorted_wrt (\<lambda>a b. cmp a b \<le> 0) (sort_insert cmp x xs)"
  using xs
proof (induction xs)
  case Nil
  then show ?case by simp
next
  case (Cons y ys)
  show ?case
  proof (cases "cmp x y \<le> 0")
    case True
    have "cmp x z \<le> 0" if "z \<in> set ys" for z
    proof -
      from Cons.prems that have "cmp y z \<le> 0" by simp
      with True show ?thesis by (rule trans)
    qed
    with True Cons.prems show ?thesis by simp
  next
    case False
    then have "cmp y x \<le> 0" by (rule total)
    moreover from Cons have "sorted_wrt (\<lambda>a b. cmp a b \<le> 0) (sort_insert cmp x ys)" by simp
    ultimately show ?thesis using False Cons.prems by (simp add: set_sort_insert)
  qed
qed

lemma sorted_js_sort:
  assumes total: "\<And>a b. \<not> cmp a b \<le> 0 \<Longrightarrow> cmp b a \<le> 0"
    and trans: "\<And>a b c. cmp a b \<le> 0 \<Longrightarrow> cmp b c \<le> 0 \<Longrightarrow> cmp a c \<le> 0"
  shows "sorted_wrt (\<lambda>a b. cmp a b \<le> 0) (js_sort cmp xs)"
  unfolding js_sort_def
proof (induction xs)
  case Nil
  show ?case by simp
next
  case (Cons x xs)
  from total trans Cons.IH show ?case
    unfolding foldr_Cons comp_def by (rule sorted_sort_insert)
qed

lemma digit_in: "digit n \<in> set ''0123456789''"
  unfolding digit_def by (rule nth_mem) simp

lemma digit_not_separator:
  "digit n \<noteq> CHR ''-''" "digit n \<noteq> CHR '':''" "digit n \<noteq> CHR ''.''"
  "digit n \<noteq> CHR ''T''" "digit n \<noteq> CHR ''Z''"
  using digit_in [of n] by auto

lemma dateStamp_eq:
  "dateStamp now = pad4 (utcFullYear now) @ pad2 (utcMonth now) @ pad2 (utcDate now)"
  by (simp add: dateStamp_def toISOString_def substring_def pad2_def pad3_def pad4_def
      digit_not_separator)

lemma amzDate_eq:
  "amzDate now = pad4 (utcFullYear now) @ pad2 (utcMonth now) @ pad2 (utcDate now) @ ''T'' @
     pad2 (utcHours now) @ pad2 (utcMinutes now) @ pad2 (utcSeconds now) @ ''Z''"
  by (simp add: amzDate_def dateStamp_eq toISOString_def substring_def pad2_def pad3_def pad4_def
      digit_not_separator)

section \<open>Comparators\<close>

lemma consistent_flip:
  assumes "consistent cmp"
  shows "cmp a b < 0 \<longleftrightarrow> cmp b a > 0"
proof
  assume lt: "cmp a b < 0"
  show "cmp b a > 0"
  proof (rule ccontr)
    assume "\<not> cmp b a > 0"
    then consider "cmp b a = 0" | "cmp b a < 0" by linarith
    then show False
    proof cases
      case 1
      with assms have "cmp a b = 0" unfolding consistent_def by blast
      with lt show False by simp
    next
      case 2
      with lt assms have "cmp a a < 0" unfolding consistent_def by blast
      moreover from assms have "cmp a a = 0" unfolding consistent_def by blast
      ultimately show False by simp
    qed
  qed
next
  assume gt: "cmp b a > 0"
  show "cmp a b < 0"
  proof (rule ccontr)
    assume "\<not> cmp a b < 0"
    then consider "cmp a b = 0" | "cmp a b > 0" by linarith
    then show False
    proof cases
      case 1
      with assms have "cmp b a = 0" unfolding consistent_def by blast
      with gt show False by simp
    next
      case 2
      with gt assms have "cmp a a > 0" unfolding consistent_def by blast
      moreover from assms have "cmp a a = 0" unfolding consistent_def by blast
      ultimately show False by simp
    qed
  qed
qed

lemma consistent_total:
  assumes "consistent cmp"
  shows "cmp a b \<le> 0 \<or> cmp b a \<le> 0"
  using consistent_flip [OF assms, of b a] by linarith

lemma consistent_lt_eq:
  assumes c: "consistent cmp" and "cmp a b < 0" "cmp b c = 0"
  shows "cmp a c < 0"
proof (rule ccontr)
  assume "\<not> cmp a c < 0"
  then consider "cmp a c = 0" | "cmp a c > 0" by linarith
  then show False
  proof cases
    case 1
    from assms(3) c have "cmp c b = 0" unfolding consistent_def by blast
    with 1 c have "cmp a b = 0" unfolding consistent_def by blast
    with assms(2) show False by simp
  next
    case 2
    then have "cmp c a < 0" using consistent_flip [OF c, of c a] by simp
    with assms(2) c have "cmp c b < 0" unfolding consistent_def by blast
    moreover from assms(3) c have "cmp c b = 0" unfolding consistent_def by blast
    ultimately show False by simp
  qed
qed

lemma consistent_eq_lt:
  assumes c: "consistent cmp" and "cmp a b = 0" "cmp b c < 0"
  shows "cmp a c < 0"
proof (rule ccontr)
  assume "\<not> cmp a c < 0"
  then consider "cmp a c = 0" | "cmp a c > 0" by linarith
  then show False
  proof cases
    case 1
    from assms(2) c have "cmp b a = 0" unfolding consistent_def by blast
    with 1 c have "cmp b c = 0" unfolding consistent_def by blast
    with assms(3) show False by simp
  next
    case 2
    from assms(3) have "cmp c b > 0" using consistent_flip [OF c, of b c] by simp
    with 2 c have "cmp a b > 0" unfolding consistent_def by blast
    with assms(2) show False by simp
  qed
qed

lemma consistent_trans:
  assumes c: "consistent cmp" and ab: "cmp a b \<le> 0" and bc: "cmp b c \<le> 0"
  shows "cmp a c \<le> 0"
proof -
  consider "cmp a b < 0" "cmp b c < 0" | "cmp a b < 0" "cmp b c = 0"
    | "cmp a b = 0" "cmp b c < 0" | "cmp a b = 0" "cmp b c = 0"
    using ab bc by linarith
  then show ?thesis
  proof cases
    case 1
    with c have "cmp a c < 0" unfolding consistent_def by blast
    then show ?thesis by simp
  next
    case 2
    then have "cmp a c < 0" by (rule consistent_lt_eq [OF c])
    then show ?thesis by simp
  next
    case 3
    then have "cmp a c < 0" by (rule consistent_eq_lt [OF c])
    then show ?thesis by simp
  next
    case 4
    with c have "cmp a c = 0" unfolding consistent_def by blast
    then show ?thesis by simp
  qed
qed


section \<open>URI encoding\<close>

lemma replace_char_concat:
  "replace_char c r (concat xss) = concat (map (replace_char c r) xss)"
  by (induction xss) (simp_all add: replace_char_def)

lemma HEXDIGIT_in: "HEXDIGIT n \<in> set ''0123456789ABCDEF''"
  unfolding HEXDIGIT_def by (rule nth_mem) simp

lemma HEXDIGIT_not_special:
  "HEXDIGIT n \<noteq> CHR ''!''" "HEXDIGIT n \<noteq> CHR 0x27" "HEXDIGIT n \<noteq> CHR ''(''"
  "HEXDIGIT n \<noteq> CHR '')''" "HEXDIGIT n \<noteq> CHR ''*''" "HEXDIGIT n \<noteq> CHR ''%''"
  using HEXDIGIT_in [of n] by auto

lemma replace_char_percent:
  "c \<noteq> CHR ''%'' \<Longrightarrow> c \<in> {CHR ''!'', CHR 0x27, CHR ''('', CHR '')'', CHR ''*''} \<Longrightarrow> replace_char c r (percent b) = percent b"
  using HEXDIGIT_not_special by (auto simp: replace_char_def percent_def)

lemma escape_more_concat: "escape_more (concat xss) = concat (map escape_more xss)"
  by (simp add: escape_more_def [abs_def] replace_char_concat comp_def)

lemma escape_more_percent: "escape_more (percent b) = percent b"
  by (simp add: escape_more_def replace_char_percent)

lemma escape_more_char:
  "escape_more [c] = (if c \<in> {CHR ''!'', CHR 0x27, CHR ''('', CHR '')'', CHR ''*''} then percent c else [c])"
  by (auto simp: escape_more_def replace_char_def percent_def HEXDIGIT_def)

lemma unreserved_split:
  "uri_unreserved c \<longleftrightarrow> rfc3986_unreserved c \<or> c \<in> {CHR ''!'', CHR 0x27, CHR ''('', CHR '')'', CHR ''*''}"
  by (auto simp: uri_unreserved_def rfc3986_unreserved_def)

lemma rfc_not_special:
  "rfc3986_unreserved c \<Longrightarrow> c \<notin> {CHR ''!'', CHR 0x27, CHR ''('', CHR '')'', CHR ''*'', CHR ''%'', CHR ''/''}"
  by (auto simp: rfc3986_unreserved_def)

lemma escape_more_encode:
  "escape_more (encodeURIComponent s) = spec_uri_encode False s"
  unfolding encodeURIComponent_def spec_uri_encode_def escape_more_concat map_map comp_def
  apply (rule arg_cong [where f = concat])
  apply (rule map_cong [OF refl])
  using rfc_not_special
  apply (auto simp: escape_more_percent escape_more_char unreserved_split)
  done

lemma hex_table:
  "\<forall>n<16. (''0123456789ABCDEF'' ! n = CHR ''2'' \<longleftrightarrow> n = 2) \<and>
            (''0123456789ABCDEF'' ! n = CHR ''F'' \<longleftrightarrow> n = 15)"
  by (simp add: numeral_eq_Suc All_less_Suc)

lemma HEXDIGIT_2F:
  "HEXDIGIT k = CHR ''2'' \<longleftrightarrow> k mod 16 = 2" "HEXDIGIT k = CHR ''F'' \<longleftrightarrow> k mod 16 = 15"
  using hex_table [rule_format, of "k mod 16"] by (simp_all add: HEXDIGIT_def)

lemma percent_2F: "percent c = ''%2F'' \<longleftrightarrow> c = CHR ''/''"
proof
  assume "percent c = ''%2F''"
  then have "(of_char c :: nat) div 16 mod 16 = 2" "(of_char c :: nat) mod 16 = 15"
    by (simp_all add: percent_def HEXDIGIT_2F)
  moreover have lt: "(of_char c :: nat) < 256" by simp
  moreover have "(of_char c :: nat) div 16 < 16"
    by (rule less_mult_imp_div_less) (use lt in simp)
  ultimately have "(of_char c :: nat) div 16 = 2" "(of_char c :: nat) mod 16 = 15" by simp_all
  then have "(of_char c :: nat) = 47" using div_mult_mod_eq [of "of_char c :: nat" 16] by simp
  then have "(of_char c :: nat) = of_char CHR ''/''" by simp
  then show "c = CHR ''/''" by (simp only: of_char_eq_iff)
next
  assume "c = CHR ''/''"
  then show "percent c = ''%2F''" by (simp add: percent_def HEXDIGIT_def)
qed

lemma replace_2F_percent:
  "replace_2F (percent c @ rest) =
     (if c = CHR ''/'' then CHR ''/'' # replace_2F rest else percent c @ replace_2F rest)"
proof (cases "c = CHR ''/''")
  case True
  then show ?thesis by (simp add: percent_def HEXDIGIT_def)
next
  case False
  then have "percent c \<noteq> ''%2F''" by (simp add: percent_2F)
  then show ?thesis using False by (simp add: percent_def HEXDIGIT_not_special)
qed

lemma replace_2F_spec: "replace_2F (spec_uri_encode False s) = spec_uri_encode True s"
proof (induction s)
  case Nil
  then show ?case by (simp add: spec_uri_encode_def)
next
  case (Cons c s)
  have IH: "replace_2F (spec_uri_encode False s) = spec_uri_encode True s" by (rule Cons.IH)
  have cons: "spec_uri_encode b (c # s) =
      (if rfc3986_unreserved c \<or> (b \<and> c = CHR ''/'') then [c] else percent c) @ spec_uri_encode b s" for b
    by (simp add: spec_uri_encode_def)
  show ?case
  proof (cases "rfc3986_unreserved c")
    case True
    then have "c \<noteq> CHR ''%''" using rfc_not_special by blast
    with True IH show ?thesis by (simp add: cons)
  next
    case False
    with IH show ?thesis by (simp add: cons replace_2F_percent del: replace_2F.simps)
  qed
qed

lemma uriEncode_spec: "uriEncode s encodeSlash = spec_uri_encode (\<not> encodeSlash) s"
  using escape_more_encode [of s] replace_2F_spec [of s]
  by (simp add: uriEncode_def escape_more_def Let_def)


section \<open>Decimal numbers: \<open>parseInt\<close> reads what \<open>String\<close> prints\<close>














section \<open>What the signer computes\<close>

lemma header_cmp_sorted:
  assumes "consistent (localeCompare P)"
  shows "sorted_wrt (\<lambda>a b. localeCompare P (fst a) (fst b) \<le> 0) (sortedHeaders P hdrs)"
proof -
  have "sorted_wrt (\<lambda>a b. header_cmp P a b \<le> 0)
          (js_sort (header_cmp P) (map (\<lambda>(k, v). (trim P (toLowerCase P k), trim P v)) hdrs))"
  proof (rule sorted_js_sort)
    fix a b :: "string \<times> string"
    assume "\<not> header_cmp P a b \<le> 0"
    then show "header_cmp P b a \<le> 0"
      using consistent_total [OF assms, of "fst a" "fst b"] by (simp add: header_cmp_def)
  next
    fix a b c :: "string \<times> string"
    assume "header_cmp P a b \<le> 0" "header_cmp P b c \<le> 0"
    then show "header_cmp P a c \<le> 0"
      using consistent_trans [OF assms, of "fst a" "fst b" "fst c"] by (simp add: header_cmp_def)
  qed
  then show ?thesis by (simp add: sortedHeaders_def header_cmp_def)
qed

lemma query_cmp_le: "query_cmp P a b \<le> 0 \<longleftrightarrow> pair_le P a b"
  by (auto simp: query_cmp_def pair_le_def)

lemma pair_le_total:
  assumes c: "consistent (localeCompare P)" and "\<not> pair_le P a b"
  shows "pair_le P b a"
proof -
  let ?k = "localeCompare P (fst a) (fst b)"
  consider "?k > 0" | "?k = 0" "\<not> localeCompare P (snd a) (snd b) \<le> 0"
    using assms(2) unfolding pair_le_def by linarith
  then show ?thesis
  proof cases
    case 1
    then have "localeCompare P (fst b) (fst a) < 0"
      using consistent_flip [OF c, of "fst b" "fst a"] by simp
    then show ?thesis by (simp add: pair_le_def)
  next
    case 2
    from 2(1) c have "localeCompare P (fst b) (fst a) = 0" unfolding consistent_def by blast
    moreover from 2(2) have "localeCompare P (snd b) (snd a) \<le> 0"
      using consistent_total [OF c, of "snd a" "snd b"] by simp
    ultimately show ?thesis by (simp add: pair_le_def)
  qed
qed

lemma pair_le_trans:
  assumes c: "consistent (localeCompare P)" and ab: "pair_le P a b" and bc: "pair_le P b d"
  shows "pair_le P a d"
proof -
  let ?k = "\<lambda>x y. localeCompare P (fst x) (fst y)"
  let ?v = "\<lambda>x y. localeCompare P (snd x) (snd y)"
  consider "?k a b < 0" "?k b d < 0" | "?k a b < 0" "?k b d = 0"
    | "?k a b = 0" "?k b d < 0" | "?k a b = 0" "?v a b \<le> 0" "?k b d = 0" "?v b d \<le> 0"
    using ab bc unfolding pair_le_def by linarith
  then show ?thesis
  proof cases
    case 1
    with c have "?k a d < 0" unfolding consistent_def by blast
    then show ?thesis by (simp add: pair_le_def)
  next
    case 2
    then have "?k a d < 0" by (rule consistent_lt_eq [OF c])
    then show ?thesis by (simp add: pair_le_def)
  next
    case 3
    then have "?k a d < 0" by (rule consistent_eq_lt [OF c])
    then show ?thesis by (simp add: pair_le_def)
  next
    case 4
    from 4(1,3) c have "?k a d = 0" unfolding consistent_def by blast
    moreover from 4(2,4) have "?v a d \<le> 0" by (rule consistent_trans [OF c])
    ultimately show ?thesis by (simp add: pair_le_def)
  qed
qed

lemma sortedQuery_sorted:
  assumes c: "consistent (localeCompare P)"
  shows "sorted_wrt (pair_le P) (sortedQuery P pu)"
proof -
  have "sorted_wrt (\<lambda>a b. query_cmp P a b \<le> 0) (js_sort (query_cmp P) (searchParams pu))"
  proof (rule sorted_js_sort)
    fix a b :: "string \<times> string"
    assume "\<not> query_cmp P a b \<le> 0"
    then show "query_cmp P b a \<le> 0" unfolding query_cmp_le by (rule pair_le_total [OF c])
  next
    fix a b d :: "string \<times> string"
    assume "query_cmp P a b \<le> 0" "query_cmp P b d \<le> 0"
    then show "query_cmp P a d \<le> 0" unfolding query_cmp_le by (rule pair_le_trans [OF c])
  qed
  then show ?thesis by (simp add: sortedQuery_def query_cmp_le [abs_def])
qed

lemma payloadHash_eq: "payloadHash P body = arrayBufferToHex (digestSHA256 P (body_bytes body))"
  by (cases body) (simp_all add: payloadHash_def sha256Hex_def)

lemma kSigning_eq: "kSigning P now cred = spec_signing_key P now cred"
  by (simp add: kSigning_def spec_signing_key_def hmacSha256_def dateStamp_eq spec_date_def)

lemma credentialScope_eq: "credentialScope now cred = spec_scope now cred"
  by (simp add: credentialScope_def spec_scope_def dateStamp_eq spec_date_def)

lemma stringToSign_eq: "stringToSign P now cred creq = spec_string_to_sign P now cred creq"
  by (simp add: stringToSign_def spec_string_to_sign_def credentialScope_eq amzDate_eq
      spec_timestamp_def spec_date_def sha256Hex_def)

lemma canonicalRequest_eq:
  "canonicalRequest P method pu shs hash =
     spec_canonical_request method (pathname pu) (sortedQuery P pu) shs hash"
  by (simp add: canonicalRequest_def spec_canonical_request_def canonicalQueryString_def
      canonicalHeaders_def signedHeaders_def uriEncode_spec)

lemma signRequest_eq:
  assumes "newURL P u = Some pu"
  shows "signRequest P now method u hdrs body cred =
     Inr (obj_set (required_headers P now pu body hdrs) ''Authorization''
            (spec_authorization P now method (pathname pu) (sortedQuery P pu)
               (sortedHeaders P (required_headers P now pu body hdrs)) body cred))"
  using assms
  by (simp add: signRequest_def Let_def spec_authorization_def canonicalRequest_eq
      stringToSign_eq kSigning_eq credentialScope_eq payloadHash_eq signedHeaders_def
      hmacSha256_def)


lemma consistent_compare_strings: "consistent compare_strings"
  unfolding consistent_def compare_strings_def by (auto split: if_splits)

lemma signRequest_Inr:
  assumes "signRequest P now method u hdrs body cred = Inr out"
  obtains pu auth where "newURL P u = Some pu"
    and "out = obj_set (required_headers P now pu body hdrs) ''Authorization'' auth"
  using assms by (auto simp: signRequest_def Let_def split: option.splits)

lemma dateStamp_milliseconds: "dateStamp (now\<lparr>utcMilliseconds := m\<rparr>) = dateStamp now"
  by (simp add: dateStamp_eq)

lemma amzDate_milliseconds: "amzDate (now\<lparr>utcMilliseconds := m\<rparr>) = amzDate now"
  by (simp add: amzDate_eq)

lemma example_signRequest:
  "signRequest example_platform example_date ''GET''
     ''https://s3.example.com/bucket/my file.txt?uploadId=7f&b=2&a=1''
     [(''Range'', '' bytes=0-9 ''), (''X-Amz-Meta-A'', ''1'')] NoBody example_credentials =
   Inr [(''Range'', '' bytes=0-9 ''), (''X-Amz-Meta-A'', ''1''),
      (''x-amz-date'', ''20240309T140507Z''),
      (''x-amz-content-sha256'', ''2321''), (''host'', ''s3.example.com''),
      (''Authorization'',
       ''AWS4-HMAC-SHA256 Credential=AKID/20240309/us-east-1/s3/aws4_request, SignedHeaders=host;range;x-amz-content-sha256;x-amz-date;x-amz-meta-a, Signature=4157'')]"
  by code_simp

text \<open>
  What \<open>signRequest\<close> computes, relative to the platform: when the platform's string
  comparison is a consistent comparator and the URL parses, the \<open>Authorization\<close> value
  is made from a list \<open>hs\<close> of header pairs, sorted by name in the order of the
  platform's comparison, a list \<open>qs\<close> of query pairs, sorted by key and then value in that
  order, and the path as the URL parser gives it.
\<close>

lemma signRequest_relative_to_platform:
  assumes "consistent (localeCompare P)" and "newURL P u = Some pu"
  shows "\<exists>hs qs.
     mset hs = mset (map (\<lambda>(k, v). (trim P (toLowerCase P k), trim P v))
                       (required_headers P now pu body hdrs)) \<and>
     sorted_wrt (\<lambda>a b. localeCompare P (fst a) (fst b) \<le> 0) hs \<and>
     mset qs = mset (searchParams pu) \<and>
     sorted_wrt (pair_le P) qs \<and>
     signRequest P now method u hdrs body cred =
       Inr (obj_set (required_headers P now pu body hdrs) ''Authorization''
              (spec_authorization P now method (pathname pu) qs hs body cred))"
proof (intro exI conjI)
  show "signRequest P now method u hdrs body cred =
       Inr (obj_set (required_headers P now pu body hdrs) ''Authorization''
              (spec_authorization P now method (pathname pu) (sortedQuery P pu)
                 (sortedHeaders P (required_headers P now pu body hdrs)) body cred))"
    using assms(2) by (rule signRequest_eq)
  show "sorted_wrt (pair_le P) (sortedQuery P pu)"
    using assms(1) by (rule sortedQuery_sorted)
  show "mset (sortedQuery P pu) = mset (searchParams pu)"
    by (simp add: sortedQuery_def mset_js_sort)
  show "sorted_wrt (\<lambda>a b. localeCompare P (fst a) (fst b) \<le> 0)
          (sortedHeaders P (required_headers P now pu body hdrs))"
    using assms(1) by (rule header_cmp_sorted)
  show "mset (sortedHeaders P (required_headers P now pu body hdrs)) =
        mset (map (\<lambda>(k, v). (trim P (toLowerCase P k), trim P v))
                       (required_headers P now pu body hdrs))"
    by (simp add: sortedHeaders_def mset_js_sort)
qed

lemma collating_sortedHeaders:
  "sortedHeaders collating_platform
     (required_headers collating_platform example_date collating_url NoBody []) =
   collating_headers"
  by code_simp

lemma collating_canonicalRequest:
  "canonicalRequest collating_platform ''GET'' collating_url collating_headers
     (payloadHash collating_platform NoBody) = signed_canonical_request"
  by code_simp

lemma collating_specified:
  "spec_canonical_request ''GET'' ''/bucket/my file.txt''
     (sort_key fst [(''a'', ''2''), (''B'', ''1'')]) collating_headers
     (sha256Hex collating_platform []) = specified_canonical_request"
  by code_simp

lemma collating_parts:
  "uriEncode (pathname collating_url) False = ''/bucket/my%2520file.txt''"
  "spec_uri_encode True ''/bucket/my file.txt'' = ''/bucket/my%20file.txt''"
  "canonicalQueryString collating_platform collating_url = ''a=2&B=1''"
  "sort_key fst [(''a'', ''2''), (''B'', ''1'')] = [(''B'', ''1''), (''a'', ''2'')]"
  "collate ''a'' ''B'' = - 1" "''B'' < ''a''"
  by code_simp+

text \<open>
  Claim C1, evaluated at a \<open>GET\<close> request to an address whose path has a space and whose
  query has the keys \<open>a\<close> and \<open>B\<close>. The URL parser gives the path percent-encoded and
  \<open>signRequest\<close> encodes it again, so the canonical request it signs has
  \<open>my%2520file.txt\<close> where the URI-encoded path is \<open>my%20file.txt\<close>; it sorts the
  query pairs with \<open>localeCompare\<close>, which puts \<open>a\<close> before \<open>B\<close>, where the
  lexicographic order puts \<open>B\<close> first. The canonical request that is signed is not the
  one the algorithm specifies.
\<close>

theorem signRequest_canonical_request_example:
  "signRequest collating_platform example_date ''GET'' collating_address [] NoBody
     example_credentials =
     Inr [(''x-amz-date'', ''20240309T140507Z''), (''x-amz-content-sha256'', ''2321''),
          (''host'', ''s3.example.com''),
          (''Authorization'',
           ''AWS4-HMAC-SHA256 Credential=AKID/20240309/us-east-1/s3/aws4_request, '' @
           ''SignedHeaders=host;x-amz-content-sha256;x-amz-date, Signature='' @
           arrayBufferToHex
             (hmacSha256 collating_platform
                (kSigning collating_platform example_date example_credentials)
                (stringToSign collating_platform example_date example_credentials
                   signed_canonical_request)))] \<and>
   uriEncode (pathname collating_url) False = ''/bucket/my%2520file.txt'' \<and>
   canonicalQueryString collating_platform collating_url = ''a=2&B=1'' \<and>
   canonicalRequest collating_platform ''GET'' collating_url collating_headers
     (payloadHash collating_platform NoBody) = signed_canonical_request \<and>
   sort_key fst [(''a'', ''2''), (''B'', ''1'')] = [(''B'', ''1''), (''a'', ''2'')] \<and>
   spec_canonical_request ''GET'' ''/bucket/my file.txt''
     (sort_key fst [(''a'', ''2''), (''B'', ''1'')]) collating_headers
     (sha256Hex collating_platform []) = specified_canonical_request \<and>
   signed_canonical_request \<noteq> specified_canonical_request"
proof -
  have u: "newURL collating_platform collating_address = Some collating_url"
    by (simp add: collating_platform_def)
  have d: "credentialScope example_date example_credentials = ''20240309/us-east-1/s3/aws4_request''"
    "amzDate example_date = ''20240309T140507Z''"
    "payloadHash collating_platform NoBody = ''2321''"
    "signedHeaders collating_headers = ''host;x-amz-content-sha256;x-amz-date''"
    "host collating_url = ''s3.example.com''" "accessKeyId example_credentials = ''AKID''"
    by code_simp+
  have "signRequest collating_platform example_date ''GET'' collating_address [] NoBody
     example_credentials =
     Inr [(''x-amz-date'', ''20240309T140507Z''), (''x-amz-content-sha256'', ''2321''),
          (''host'', ''s3.example.com''),
          (''Authorization'',
           ''AWS4-HMAC-SHA256 Credential=AKID/20240309/us-east-1/s3/aws4_request, '' @
           ''SignedHeaders=host;x-amz-content-sha256;x-amz-date, Signature='' @
           arrayBufferToHex
             (hmacSha256 collating_platform
                (kSigning collating_platform example_date example_credentials)
                (stringToSign collating_platform example_date example_credentials
                   signed_canonical_request)))]"
    unfolding signRequest_def u option.case Let_def collating_sortedHeaders
      collating_canonicalRequest
    by (simp add: d required_headers_def)
  moreover have "signed_canonical_request \<noteq> specified_canonical_request"
    by (simp add: signed_canonical_request_def specified_canonical_request_def)
  ultimately show ?thesis
    using collating_parts(1,3,4) collating_canonicalRequest collating_specified
    by (intro conjI)
qed

lemma signRequest_milliseconds:
  "signRequest P (now\<lparr>utcMilliseconds := m\<rparr>) method u hdrs body cred =
   signRequest P now method u hdrs body cred"
  by (cases "newURL P u")
     (simp_all add: signRequest_def required_headers_def credentialScope_def
        stringToSign_def kSigning_def dateStamp_milliseconds amzDate_milliseconds)

lemma signRequest_Authorization:
  assumes "signRequest P now method u hdrs body cred = Inr out"
  shows "\<exists>auth. map_of out ''Authorization'' = Some auth"
proof -
  from assms obtain pu auth where
    "out = obj_set (required_headers P now pu body hdrs) ''Authorization'' auth"
    by (rule signRequest_Inr)
  then show ?thesis by (simp add: map_of_obj_set)
qed

lemma example_signed_again:
  "signRequest example_platform example_date ''GET''
     ''https://s3.example.com/bucket/my file.txt?uploadId=7f&b=2&a=1''
     example_signed NoBody example_credentials = Inr signed_again"
  by code_simp

text \<open>
  Claim C2, as amended. For the same method, URL, body and credentials, two invocations
  of \<open>signRequest\<close> at instants that agree to the second (they may differ in their
  milliseconds), on two different header objects that hold the same entries, end alike:
  both throw the same exception and leave the store as it was, or both return their
  object, the two objects then hold the same entries and the same bytes as
  \<open>Authorization\<close> value, and the second invocation leaves the object of the first as
  it is.
\<close>

theorem signRequest_byte_identical:
  assumes "a \<noteq> b" and "h a = h b"
    and "signRequest_in_place P (now\<lparr>utcMilliseconds := m1\<rparr>) method u a body cred h = (r1, h1)"
    and "signRequest_in_place P (now\<lparr>utcMilliseconds := m2\<rparr>) method u b body cred h1 = (r2, h2)"
  shows "(\<forall>e. r1 = Inl e \<longrightarrow> r2 = Inl e \<and> h2 = h) \<and>
         (\<forall>ra. r1 = Inr ra \<longrightarrow>
            ra = a \<and> r2 = Inr b \<and> h2 a = h1 a \<and> h2 b = h1 a \<and>
            (\<exists>auth. map_of (h1 a) ''Authorization'' = Some auth \<and>
                    map_of (h2 a) ''Authorization'' = Some auth \<and>
                    map_of (h2 b) ''Authorization'' = Some auth))"
proof (cases "signRequest P now method u (h a) body cred")
  case (Inl e)
  with assms(3) have 1: "r1 = Inl e" "h1 = h"
    by (simp_all add: signRequest_in_place_def signRequest_milliseconds)
  with Inl assms(2,4) have "r2 = Inl e" "h2 = h"
    by (simp_all add: signRequest_in_place_def signRequest_milliseconds)
  with 1 show ?thesis by simp
next
  case (Inr out)
  with assms(3) have 1: "r1 = Inr a" "h1 = h(a := out)"
    by (simp_all add: signRequest_in_place_def signRequest_milliseconds)
  from assms(1,2) have "h1 b = h a" by (simp add: 1)
  with Inr assms(4) have 2: "r2 = Inr b" "h2 = h1(b := out)"
    by (simp_all add: signRequest_in_place_def signRequest_milliseconds)
  from Inr obtain auth where "map_of out ''Authorization'' = Some auth"
    using signRequest_Authorization by blast
  with 1 2 assms(1) show ?thesis by simp
qed

theorem signRequest_byte_identical_witness:
  "signRequest_in_place example_platform (example_date\<lparr>utcMilliseconds := 0\<rparr>) ''GET''
     ''https://s3.example.com/bucket/my file.txt?uploadId=7f&b=2&a=1'' 0 NoBody
     example_credentials example_heap = (Inr 0, example_heap(0 := example_signed)) \<and>
   signRequest_in_place example_platform (example_date\<lparr>utcMilliseconds := 999\<rparr>) ''GET''
     ''https://s3.example.com/bucket/my file.txt?uploadId=7f&b=2&a=1'' 1 NoBody
     example_credentials (example_heap(0 := example_signed)) =
     (Inr 1, example_heap(0 := example_signed, 1 := example_signed)) \<and>
   map_of example_signed ''Authorization'' =
     Some ''AWS4-HMAC-SHA256 Credential=AKID/20240309/us-east-1/s3/aws4_request, SignedHeaders=host;range;x-amz-content-sha256;x-amz-date;x-amz-meta-a, Signature=4157''"
proof -
  let ?u = "''https://s3.example.com/bucket/my file.txt?uploadId=7f&b=2&a=1''"
  let ?h1 = "example_heap(0 := example_signed)"
  let ?second = "signRequest_in_place example_platform (example_date\<lparr>utcMilliseconds := 999\<rparr>)
     ''GET'' ?u 1 NoBody example_credentials ?h1"
  have first: "signRequest_in_place example_platform (example_date\<lparr>utcMilliseconds := 0\<rparr>)
     ''GET'' ?u 0 NoBody example_credentials example_heap = (Inr 0, ?h1)"
    using example_signRequest
    by (simp add: signRequest_in_place_def signRequest_milliseconds example_heap_def
        example_signed_def)
  have second: "?second = (fst ?second, snd ?second)"
    by simp
  have eq: "example_heap (0::nat) = example_heap 1"
    by (simp add: example_heap_def)
  have ne: "(0::nat) \<noteq> 1"
    by simp
  note th = signRequest_byte_identical [OF ne eq first second, THEN conjunct2, rule_format,
      OF refl]
  have r2: "fst ?second = Inr 1" and a: "snd ?second 0 = example_signed"
    and b: "snd ?second 1 = example_signed"
    using th by simp_all
  have other: "snd ?second r = ?h1 r" if "r \<noteq> 1" for r
    using that
    by (simp add: signRequest_in_place_def split: sum.splits)
  have "snd ?second = example_heap(0 := example_signed, 1 := example_signed)"
  proof
    fix r show "snd ?second r = (example_heap(0 := example_signed, 1 := example_signed)) r"
      using b other [of r] by (cases "r = 1") simp_all
  qed
  with r2 have "?second = (Inr 1, example_heap(0 := example_signed, 1 := example_signed))"
    by (metis prod.collapse)
  moreover have "map_of example_signed ''Authorization'' =
     Some ''AWS4-HMAC-SHA256 Credential=AKID/20240309/us-east-1/s3/aws4_request, SignedHeaders=host;range;x-amz-content-sha256;x-amz-date;x-amz-meta-a, Signature=4157''"
    by (simp add: example_signed_def)
  ultimately show ?thesis using first by simp
qed

text \<open>
  Claim C2 as stated fails when the two invocations are given the same header object: the
  first leaves its \<open>Authorization\<close> entry in the object, the second signs that entry
  with the others, and its \<open>Authorization\<close> value differs from the first.
\<close>

theorem signRequest_same_object_counterexample:
  "signRequest_in_place example_platform example_date ''GET''
     ''https://s3.example.com/bucket/my file.txt?uploadId=7f&b=2&a=1'' 0 NoBody
     example_credentials example_heap = (Inr 0, example_heap(0 := example_signed)) \<and>
   signRequest_in_place example_platform example_date ''GET''
     ''https://s3.example.com/bucket/my file.txt?uploadId=7f&b=2&a=1'' 0 NoBody
     example_credentials (example_heap(0 := example_signed)) =
     (Inr 0, example_heap(0 := signed_again)) \<and>
   map_of example_signed ''Authorization'' \<noteq> map_of signed_again ''Authorization''"
proof -
  have "signRequest_in_place example_platform example_date ''GET''
     ''https://s3.example.com/bucket/my file.txt?uploadId=7f&b=2&a=1'' 0 NoBody
     example_credentials example_heap = (Inr 0, example_heap(0 := example_signed))"
    using example_signRequest
    by (simp add: signRequest_in_place_def example_heap_def example_signed_def)
  moreover have "signRequest_in_place example_platform example_date ''GET''
     ''https://s3.example.com/bucket/my file.txt?uploadId=7f&b=2&a=1'' 0 NoBody
     example_credentials (example_heap(0 := example_signed)) =
     (Inr 0, example_heap(0 := signed_again))"
    using example_signed_again by (simp add: signRequest_in_place_def)
  moreover have "map_of example_signed ''Authorization'' \<noteq> map_of signed_again ''Authorization''"
    by (simp add: example_signed_def signed_again_def)
  ultimately show ?thesis by (intro conjI)
qed

text \<open>
  Claim C10. When \<open>signRequest\<close> returns a header map, that map holds the entries
  \<open>x-amz-date\<close>, \<open>x-amz-content-sha256\<close>, \<open>host\<close> and \<open>Authorization\<close> with the values
  it computed, its keys are the keys of the input map and these four, every other key has
  the value it had in the input map, and the keys stay distinct.
\<close>

theorem signRequest_frame:
  assumes "signRequest P now method u hdrs body cred = Inr out"
  shows "(\<exists>pu auth. newURL P u = Some pu \<and>
            map_of out ''x-amz-date'' = Some (amzDate now) \<and>
            map_of out ''x-amz-content-sha256'' = Some (payloadHash P body) \<and>
            map_of out ''host'' = Some (host pu) \<and>
            map_of out ''Authorization'' = Some auth) \<and>
         fst ` set out =
           fst ` set hdrs \<union> {''x-amz-date'', ''x-amz-content-sha256'', ''host'', ''Authorization''} \<and>
         (\<forall>k. k \<notin> {''x-amz-date'', ''x-amz-content-sha256'', ''host'', ''Authorization''}
               \<longrightarrow> map_of out k = map_of hdrs k) \<and>
         (distinct (map fst hdrs) \<longrightarrow> distinct (map fst out))"
proof -
  from assms obtain pu auth where pu: "newURL P u = Some pu"
    and out: "out = obj_set (required_headers P now pu body hdrs) ''Authorization'' auth"
    by (rule signRequest_Inr)
  have vals: "map_of out ''x-amz-date'' = Some (amzDate now) \<and>
      map_of out ''x-amz-content-sha256'' = Some (payloadHash P body) \<and>
      map_of out ''host'' = Some (host pu) \<and> map_of out ''Authorization'' = Some auth"
    by (simp add: out required_headers_def map_of_obj_set)
  have keys: "fst ` set out =
      fst ` set hdrs \<union> {''x-amz-date'', ''x-amz-content-sha256'', ''host'', ''Authorization''}"
    unfolding out required_headers_def keys_obj_set by blast
  have others: "map_of out k = map_of hdrs k"
    if "k \<notin> {''x-amz-date'', ''x-amz-content-sha256'', ''host'', ''Authorization''}" for k
    using that by (simp add: out required_headers_def map_of_obj_set)
  have dist: "distinct (map fst out)" if "distinct (map fst hdrs)"
    unfolding out required_headers_def by (intro distinct_obj_set that)
  from pu vals keys others dist show ?thesis by blast
qed

theorem signRequest_frame_witness:
  "signRequest example_platform example_date ''GET''
     ''https://s3.example.com/bucket/my file.txt?uploadId=7f&b=2&a=1''
     [(''Range'', '' bytes=0-9 ''), (''X-Amz-Meta-A'', ''1'')] NoBody example_credentials =
   Inr example_signed \<and>
   map_of example_signed ''Range'' = Some '' bytes=0-9 '' \<and>
   map_of example_signed ''X-Amz-Meta-A'' = Some ''1'' \<and>
   map_of example_signed ''x-amz-date'' = Some ''20240309T140507Z'' \<and>
   distinct (map fst example_signed)"
proof -
  have ev: "signRequest example_platform example_date ''GET''
     ''https://s3.example.com/bucket/my file.txt?uploadId=7f&b=2&a=1''
     [(''Range'', '' bytes=0-9 ''), (''X-Amz-Meta-A'', ''1'')] NoBody example_credentials =
     Inr example_signed"
    unfolding example_signed_def by (rule example_signRequest)
  note frame = signRequest_frame [OF ev]
  note others = frame [THEN conjunct2, THEN conjunct2, THEN conjunct1, rule_format]
  note dist = frame [THEN conjunct2, THEN conjunct2, THEN conjunct2]
  have "map_of example_signed ''Range'' = Some '' bytes=0-9 ''"
    using others [of "''Range''"] by simp
  moreover have "map_of example_signed ''X-Amz-Meta-A'' = Some ''1''"
    using others [of "''X-Amz-Meta-A''"] by simp
  moreover have "map_of example_signed ''x-amz-date'' = Some ''20240309T140507Z''"
    by (simp add: example_signed_def)
  moreover have "distinct (map fst example_signed)"
    using dist by simp
  ultimately show ?thesis using ev by simp
qed

section \<open>The guest quota\<close>




lemma check_store_failure:
  assumes "GUEST_UPLOAD env = Some ''true''" "\<not> fileSize > maxSize env"
    and "img_url env = Some kv" "get_failure kv (guest_key P now request) = Some e"
  shows "checkGuestUpload P now request env fileSize =
     \<lparr>allowed = True, reason = None, status_code = None, remaining = None\<rparr>"
  using assms
  by (simp add: checkGuestUpload_def maxSize_def kv_get_def Let_def)






lemma guest_key_day:
  "guest_key P now r = guest_key P now' r \<longleftrightarrow> getTodayKey now = getTodayKey now'"
  by (simp add: guest_key_def)


lemma example_limits:
  "maxSize example_env = 5242880" "dailyLimit example_env = 3"
  "GUEST_UPLOAD example_env = Some ''true''" "img_url example_env = Some empty_store"
  by (simp_all add: maxSize_def dailyLimit_def example_env_def parseInt_opt_def or_default_def)
     code_simp



lemma empty_store_facts:
  "reliable empty_store" "entries empty_store k = None" "get_failure empty_store k = None"
  "put_failure empty_store k = None"
  by (simp_all add: reliable_def empty_store_def)





section \<open>The status query and a failing store\<close>

lemma onRequestGet_store_failure:
  assumes "newURL P (request_url request) = Some pu"
    and "map_of (searchParams pu) ''uploadId'' = Some uid" "uid \<noteq> []"
    and "img_url env = Some kv" "get_failure kv (''upload:'' @ uid) = Some e"
  shows "onRequestGet P request env =
     Inr \<lparr>response_status = 500, response_body = ErrorBody (Thrown e)\<rparr>"
  using assms by (simp add: onRequestGet_def Let_def str_truthy_def kv_get_def)

lemma onRequestGet_absent:
  assumes "newURL P (request_url request) = Some pu"
    and "map_of (searchParams pu) ''uploadId'' = Some uid" "uid \<noteq> []"
    and "img_url env = Some kv" "get_failure kv (''upload:'' @ uid) = None"
    and "entries kv (''upload:'' @ uid) = None"
  shows "onRequestGet P request env =
     Inr \<lparr>response_status = 404, response_body = ErrorBody TaskNotFound\<rparr>"
  using assms by (simp add: onRequestGet_def Let_def str_truthy_def kv_get_def)

lemma example_store_failure:
  "onRequestGet example_platform example_request (example_env\<lparr>img_url := Some failing_store\<rparr>) =
     Inr \<lparr>response_status = 500,
          response_body = ErrorBody (Thrown (JsError ''KV unavailable''))\<rparr>"
  by (simp add: onRequestGet_def example_platform_def example_request_def example_url_def
      Let_def str_truthy_def kv_get_def failing_store_def)

lemma onRequestGet_read:
  assumes "newURL P (request_url request) = Some pu"
    and "map_of (searchParams pu) ''uploadId'' = Some uid" "uid \<noteq> []"
  shows "onRequestGet P request env =
     Inr (case img_url env of
            None \<Rightarrow> \<lparr>response_status = 500, response_body = ErrorBody (Thrown TypeError)\<rparr>
          | Some kv \<Rightarrow>
              (case get_failure kv (''upload:'' @ uid) of
                 Some e \<Rightarrow> \<lparr>response_status = 500, response_body = ErrorBody (Thrown e)\<rparr>
               | None \<Rightarrow>
                   (case entries kv (''upload:'' @ uid) of
                      None \<Rightarrow> \<lparr>response_status = 404, response_body = ErrorBody TaskNotFound\<rparr>
                    | Some (txt, ttl) \<Rightarrow>
                        (case JSON_parse P txt of
                           Inl e \<Rightarrow> \<lparr>response_status = 500, response_body = ErrorBody (Thrown e)\<rparr>
                         | Inr v \<Rightarrow>
                             if js_truthy v
                             then \<lparr>response_status = 200, response_body = StatusBody True v\<rparr>
                             else \<lparr>response_status = 404,
                                   response_body = ErrorBody TaskNotFound\<rparr>))))"
  using assms
  by (auto simp: onRequestGet_def Let_def str_truthy_def kv_get_def
      split: option.splits sum.splits prod.splits)

lemma onRequestGet_404_iff:
  assumes "newURL P (request_url request) = Some pu"
    and "map_of (searchParams pu) ''uploadId'' = Some uid" "uid \<noteq> []"
  shows "(\<exists>r. onRequestGet P request env = Inr r \<and> response_status r = 404) \<longleftrightarrow>
     (\<exists>kv. img_url env = Some kv \<and> get_failure kv (''upload:'' @ uid) = None \<and>
           no_session P kv (''upload:'' @ uid))"
  unfolding onRequestGet_read [OF assms] no_session_def
  by (auto split: option.splits sum.splits prod.splits)

lemma onRequestGet_no_session:
  assumes "newURL P (request_url request) = Some pu"
    and "map_of (searchParams pu) ''uploadId'' = Some uid" "uid \<noteq> []"
    and "img_url env = Some kv" "get_failure kv (''upload:'' @ uid) = None"
    and "no_session P kv (''upload:'' @ uid)"
  shows "onRequestGet P request env =
     Inr \<lparr>response_status = 404, response_body = ErrorBody TaskNotFound\<rparr>"
  using assms(4-6) unfolding onRequestGet_read [OF assms(1-3)] no_session_def
  by (auto split: option.splits sum.splits prod.splits)

text \<open>
  Claim C9, as amended. When the read of the store throws, the status query answers 500
  with the thrown error as its message. It answers 404 exactly when the read succeeds and
  finds no session: no entry under the key, or an entry that parses to a false JSON
  value; the answer is then the error \<open>TaskNotFound\<close>. When the read of the store throws,
  \<open>checkGuestUpload\<close> answers that the upload is allowed, without a \<open>remaining\<close> count.
\<close>

theorem store_failure_policy:
  "(newURL P (request_url request) = Some pu \<and>
    map_of (searchParams pu) ''uploadId'' = Some uid \<and> uid \<noteq> [] \<longrightarrow>
      (\<forall>kv e. img_url env = Some kv \<and> get_failure kv (''upload:'' @ uid) = Some e \<longrightarrow>
         onRequestGet P request env =
           Inr \<lparr>response_status = 500, response_body = ErrorBody (Thrown e)\<rparr>) \<and>
      ((\<exists>r. onRequestGet P request env = Inr r \<and> response_status r = 404) \<longleftrightarrow>
       (\<exists>kv. img_url env = Some kv \<and> get_failure kv (''upload:'' @ uid) = None \<and>
             no_session P kv (''upload:'' @ uid))) \<and>
      (\<forall>kv. img_url env = Some kv \<and> get_failure kv (''upload:'' @ uid) = None \<and>
            no_session P kv (''upload:'' @ uid) \<longrightarrow>
         onRequestGet P request env =
           Inr \<lparr>response_status = 404, response_body = ErrorBody TaskNotFound\<rparr>)) \<and>
   (\<forall>kv e. GUEST_UPLOAD env = Some ''true'' \<and> \<not> fileSize > maxSize env \<and>
      img_url env = Some kv \<and> get_failure kv (guest_key P now request) = Some e \<longrightarrow>
      checkGuestUpload P now request env fileSize =
        \<lparr>allowed = True, reason = None, status_code = None, remaining = None\<rparr>)"
proof (intro conjI impI allI)
  fix kv e
  assume "newURL P (request_url request) = Some pu \<and>
    map_of (searchParams pu) ''uploadId'' = Some uid \<and> uid \<noteq> []"
    and "img_url env = Some kv \<and> get_failure kv (''upload:'' @ uid) = Some e"
  then show "onRequestGet P request env =
           Inr \<lparr>response_status = 500, response_body = ErrorBody (Thrown e)\<rparr>"
    using onRequestGet_store_failure [of P request pu uid env kv e] by blast
next
  assume "newURL P (request_url request) = Some pu \<and>
    map_of (searchParams pu) ''uploadId'' = Some uid \<and> uid \<noteq> []"
  then show "(\<exists>r. onRequestGet P request env = Inr r \<and> response_status r = 404) \<longleftrightarrow>
       (\<exists>kv. img_url env = Some kv \<and> get_failure kv (''upload:'' @ uid) = None \<and>
             no_session P kv (''upload:'' @ uid))"
    using onRequestGet_404_iff [of P request pu uid env] by blast
next
  fix kv
  assume "newURL P (request_url request) = Some pu \<and>
    map_of (searchParams pu) ''uploadId'' = Some uid \<and> uid \<noteq> []"
    and "img_url env = Some kv \<and> get_failure kv (''upload:'' @ uid) = None \<and>
            no_session P kv (''upload:'' @ uid)"
  then show "onRequestGet P request env =
           Inr \<lparr>response_status = 404, response_body = ErrorBody TaskNotFound\<rparr>"
    using onRequestGet_no_session [of P request pu uid env kv] by blast
next
  fix kv e
  assume "GUEST_UPLOAD env = Some ''true'' \<and> \<not> fileSize > maxSize env \<and>
      img_url env = Some kv \<and> get_failure kv (guest_key P now request) = Some e"
  then show "checkGuestUpload P now request env fileSize =
        \<lparr>allowed = True, reason = None, status_code = None, remaining = None\<rparr>"
    using check_store_failure [of env fileSize kv P now request e] by blast
qed

theorem store_failure_policy_witness:
  "onRequestGet example_platform example_request (example_env\<lparr>img_url := Some failing_store\<rparr>) =
     Inr \<lparr>response_status = 500,
          response_body = ErrorBody (Thrown (JsError ''KV unavailable''))\<rparr> \<and>
   onRequestGet example_platform example_request example_env =
     Inr \<lparr>response_status = 404, response_body = ErrorBody TaskNotFound\<rparr> \<and>
   checkGuestUpload example_platform example_date example_request
     (example_env\<lparr>img_url := Some failing_store\<rparr>) 1024 =
     \<lparr>allowed = True, reason = None, status_code = None, remaining = None\<rparr>"
proof -
  have u: "newURL example_platform (request_url example_request) = Some example_url \<and>
    map_of (searchParams example_url) ''uploadId'' = Some ''7f'' \<and> ''7f'' \<noteq> []"
    by (simp add: example_platform_def example_request_def example_url_def)
  have f: "get_failure failing_store k = Some (JsError ''KV unavailable'')" for k
    by (simp add: failing_store_def)
  note get = store_failure_policy [where P = example_platform and request = example_request
        and pu = example_url and uid = "''7f''", THEN conjunct1, rule_format, OF u]
  have w1: "onRequestGet example_platform example_request (example_env\<lparr>img_url := Some failing_store\<rparr>) =
     Inr \<lparr>response_status = 500,
          response_body = ErrorBody (Thrown (JsError ''KV unavailable''))\<rparr>"
    using get [where env = "example_env\<lparr>img_url := Some failing_store\<rparr>", THEN conjunct1,
        rule_format, of failing_store "JsError ''KV unavailable''"]
    by (simp add: f)
  have w2: "onRequestGet example_platform example_request example_env =
     Inr \<lparr>response_status = 404, response_body = ErrorBody TaskNotFound\<rparr>"
    using get [where env = example_env, THEN conjunct2, THEN conjunct2, rule_format,
        of empty_store]
    by (simp add: example_limits empty_store_facts no_session_def)
  have w3: "checkGuestUpload example_platform example_date example_request
     (example_env\<lparr>img_url := Some failing_store\<rparr>) 1024 =
     \<lparr>allowed = True, reason = None, status_code = None, remaining = None\<rparr>"
    using store_failure_policy [where P = example_platform and request = example_request
        and now = example_date and fileSize = 1024
        and env = "example_env\<lparr>img_url := Some failing_store\<rparr>",
        THEN conjunct2, rule_format, of failing_store "JsError ''KV unavailable''"]
    using example_limits by (simp add: f maxSize_def)
  from w1 w2 w3 show ?thesis by (intro conjI)
qed

text \<open>
  Claim C9 as stated fails: with a store whose reads throw, the status query of an
  upload answers 500, not the 404 of a missing session.
\<close>

theorem getStatus_store_failure_counterexample:
  "onRequestGet example_platform example_request (example_env\<lparr>img_url := Some failing_store\<rparr>) =
     Inr \<lparr>response_status = 500,
          response_body = ErrorBody (Thrown (JsError ''KV unavailable''))\<rparr> \<and>
   onRequestGet example_platform example_request (example_env\<lparr>img_url := Some failing_store\<rparr>) \<noteq>
     Inr \<lparr>response_status = 404, response_body = ErrorBody TaskNotFound\<rparr>"
  by (simp add: example_store_failure)


section \<open>Session initialisation\<close>

lemma js_get_present: "present_body body \<Longrightarrow> js_get body name = Inr (js_field body name)"
  by (cases body) (simp_all add: present_body_def js_field_def)

lemma onRequestPost_validated:
  assumes "admitted P out request env" "json request = Inr body" "present_body body"
  shows "onRequestPost P out request env =
    (if \<not> js_truthy (js_field body ''fileName'') \<or> \<not> js_truthy (js_field body ''fileSize'') \<or>
        \<not> js_truthy (js_field body ''totalChunks'') then
       (\<lparr>response_status = 400, response_body = ErrorBody MissingParameters\<rparr>, env)
     else if js_gt P (js_field body ''fileSize'') MAX_FILE_SIZE then
       (\<lparr>response_status = 400, response_body = ErrorBody FileTooLarge\<rparr>, env)
     else
       (case img_url env of
          None \<Rightarrow> (\<lparr>response_status = 500, response_body = ErrorBody (Thrown TypeError)\<rparr>, env)
        | Some kv \<Rightarrow>
           (case kv_put kv (''upload:'' @ generateUploadId (random_bytes out))
                   (JSON_stringify P
                      (uploadTask (generateUploadId (random_bytes out))
                         (js_field body ''fileName'') (js_field body ''fileSize'')
                         (js_field body ''fileType'') (js_field body ''totalChunks'')
                         (normalizedStorage (js_field body ''storageMode'')) (date_now_ms out)))
                   3600 of
              Inl e \<Rightarrow> (\<lparr>response_status = 500, response_body = ErrorBody (Thrown e)\<rparr>, env)
            | Inr kv' \<Rightarrow>
                (\<lparr>response_status = 200,
                  response_body = InitBody True (generateUploadId (random_bytes out)) CHUNK_SIZE\<rparr>,
                 env\<lparr>img_url := Some kv'\<rparr>))))"
  using assms
  by (auto simp: onRequestPost_def admitted_def Let_def js_get_present split: if_splits)


lemma onRequestPost_not_admitted:
  "\<not> admitted P out request env \<Longrightarrow>
   onRequestPost P out request env =
     (\<lparr>response_status = 403, response_body = ErrorBody GuestNoChunkedUpload\<rparr>, env)"
  by (auto simp: onRequestPost_def admitted_def Let_def split: if_splits)

lemma onRequestPost_bad_json:
  "admitted P out request env \<Longrightarrow> json request = Inl e \<Longrightarrow>
   onRequestPost P out request env =
     (\<lparr>response_status = 500, response_body = ErrorBody (Thrown e)\<rparr>, env)"
  by (auto simp: onRequestPost_def admitted_def Let_def split: if_splits)

lemma onRequestPost_null_body:
  "admitted P out request env \<Longrightarrow> json request = Inr body \<Longrightarrow> \<not> present_body body \<Longrightarrow>
   onRequestPost P out request env =
     (\<lparr>response_status = 500, response_body = ErrorBody (Thrown TypeError)\<rparr>, env)"
  by (auto simp: onRequestPost_def admitted_def present_body_def Let_def split: if_splits)

lemma example_uploadId:
  "generateUploadId (random_bytes example_outside) = ''000102030405060708090a0b0c0dfeff''"
  by code_simp

lemma example_admitted: "admitted example_platform example_outside request env"
  by (simp add: admitted_def example_outside_def)

text \<open>
  Claim C3, as amended. For an admitted caller and a JSON body that can be destructured,
  session initialisation answers 400 exactly when \<open>fileName\<close>, \<open>fileSize\<close> or
  \<open>totalChunks\<close> is falsy (missing, \<open>null\<close>, \<open>false\<close>, \<open>0\<close> or the empty string)
  or \<open>fileSize\<close> compares greater than the maximum of 100 MB; with \<open>fileSize\<close> one
  byte over the maximum it answers 400; with \<open>fileSize\<close> at the maximum, the two other
  fields truthy and a store that takes the write, it answers 200 with the upload
  identifier and the chunk size.
\<close>

theorem init_validation:
  assumes "admitted P out request env" "json request = Inr body" "present_body body"
  shows "(response_status (fst (onRequestPost P out request env)) = 400 \<longleftrightarrow>
            \<not> js_truthy (js_field body ''fileName'') \<or> \<not> js_truthy (js_field body ''fileSize'') \<or>
            \<not> js_truthy (js_field body ''totalChunks'') \<or>
            js_gt P (js_field body ''fileSize'') MAX_FILE_SIZE) \<and>
         (js_field body ''fileSize'' = JNum (MAX_FILE_SIZE + 1) \<longrightarrow>
            response_status (fst (onRequestPost P out request env)) = 400) \<and>
         (js_field body ''fileSize'' = JNum MAX_FILE_SIZE \<and>
          js_truthy (js_field body ''fileName'') \<and> js_truthy (js_field body ''totalChunks'') \<and>
          img_url env = Some kv \<and>
          put_failure kv (''upload:'' @ generateUploadId (random_bytes out)) = None \<longrightarrow>
            fst (onRequestPost P out request env) =
              \<lparr>response_status = 200,
               response_body = InitBody True (generateUploadId (random_bytes out)) CHUNK_SIZE\<rparr>)"
proof (intro conjI)
  note v = onRequestPost_validated [OF assms]
  show "response_status (fst (onRequestPost P out request env)) = 400 \<longleftrightarrow>
            \<not> js_truthy (js_field body ''fileName'') \<or> \<not> js_truthy (js_field body ''fileSize'') \<or>
            \<not> js_truthy (js_field body ''totalChunks'') \<or>
            js_gt P (js_field body ''fileSize'') MAX_FILE_SIZE"
    unfolding v by (auto split: option.splits sum.splits)
  show "js_field body ''fileSize'' = JNum (MAX_FILE_SIZE + 1) \<longrightarrow>
            response_status (fst (onRequestPost P out request env)) = 400"
    unfolding v by (simp add: js_gt_def js_number_def)
  show "js_field body ''fileSize'' = JNum MAX_FILE_SIZE \<and>
          js_truthy (js_field body ''fileName'') \<and> js_truthy (js_field body ''totalChunks'') \<and>
          img_url env = Some kv \<and>
          put_failure kv (''upload:'' @ generateUploadId (random_bytes out)) = None \<longrightarrow>
            fst (onRequestPost P out request env) =
              \<lparr>response_status = 200,
               response_body = InitBody True (generateUploadId (random_bytes out)) CHUNK_SIZE\<rparr>"
    unfolding v by (simp add: js_gt_def js_number_def kv_put_def MAX_FILE_SIZE_def)
qed


theorem init_validation_witness:
  "response_status (fst (onRequestPost example_platform example_outside
     (example_request\<lparr>json := Inr (JObj [(''fileName'', JStr ''a.bin''),
        (''fileSize'', JNum (MAX_FILE_SIZE + 1)), (''totalChunks'', JNum 21)])\<rparr>)
     example_env)) = 400 \<and>
   response_status (fst (onRequestPost example_platform example_outside
     (example_request\<lparr>json := Inr (JObj [(''fileSize'', JNum 1024),
        (''totalChunks'', JNum 1)])\<rparr>)
     example_env)) = 400 \<and>
   fst (onRequestPost example_platform example_outside
     (example_request\<lparr>json := Inr (JObj [(''fileName'', JStr ''a.bin''),
        (''fileSize'', JNum MAX_FILE_SIZE), (''totalChunks'', JNum 20)])\<rparr>)
     example_env) =
     \<lparr>response_status = 200,
      response_body = InitBody True ''000102030405060708090a0b0c0dfeff'' CHUNK_SIZE\<rparr>"
proof -
  let ?over = "JObj [(''fileName'', JStr ''a.bin''),
        (''fileSize'', JNum (MAX_FILE_SIZE + 1)), (''totalChunks'', JNum 21)]"
  let ?missing = "JObj [(''fileSize'', JNum 1024), (''totalChunks'', JNum 1)]"
  let ?at = "JObj [(''fileName'', JStr ''a.bin''),
        (''fileSize'', JNum MAX_FILE_SIZE), (''totalChunks'', JNum 20)]"
  have w1: "response_status (fst (onRequestPost example_platform example_outside
     (example_request\<lparr>json := Inr ?over\<rparr>) example_env)) = 400"
    using init_validation [where P = example_platform and out = example_outside
        and request = "example_request\<lparr>json := Inr ?over\<rparr>" and env = example_env
        and body = ?over and kv = empty_store, OF example_admitted, THEN conjunct2, THEN conjunct1]
    by (simp add: present_body_def js_field_def)
  have w2: "response_status (fst (onRequestPost example_platform example_outside
     (example_request\<lparr>json := Inr ?missing\<rparr>) example_env)) = 400"
    using init_validation [where P = example_platform and out = example_outside
        and request = "example_request\<lparr>json := Inr ?missing\<rparr>" and env = example_env
        and body = ?missing and kv = empty_store, OF example_admitted, THEN conjunct1]
    by (simp add: present_body_def js_field_def)
  have w3: "fst (onRequestPost example_platform example_outside
     (example_request\<lparr>json := Inr ?at\<rparr>) example_env) =
     \<lparr>response_status = 200,
      response_body = InitBody True ''000102030405060708090a0b0c0dfeff'' CHUNK_SIZE\<rparr>"
    using init_validation [where P = example_platform and out = example_outside
        and request = "example_request\<lparr>json := Inr ?at\<rparr>" and env = example_env
        and body = ?at and kv = empty_store, OF example_admitted, THEN conjunct2, THEN conjunct2]
    by (simp add: present_body_def js_field_def example_limits empty_store_facts
        example_uploadId)
  from w1 w2 w3 show ?thesis by (intro conjI)
qed

text \<open>
  Claim C3 as stated fails: a request that gives all three fields, with \<open>fileSize\<close>
  zero, is rejected with 400 although no field is missing and the size does not exceed
  the maximum.
\<close>

theorem init_zero_size_counterexample:
  "fst (onRequestPost example_platform example_outside
     (example_request\<lparr>json := Inr (JObj [(''fileName'', JStr ''a.bin''),
        (''fileSize'', JNum 0), (''totalChunks'', JNum 1)])\<rparr>)
     example_env) =
     \<lparr>response_status = 400, response_body = ErrorBody MissingParameters\<rparr> \<and>
   js_field (JObj [(''fileName'', JStr ''a.bin''), (''fileSize'', JNum 0),
                   (''totalChunks'', JNum 1)]) ''fileName'' = JStr ''a.bin'' \<and>
   js_field (JObj [(''fileName'', JStr ''a.bin''), (''fileSize'', JNum 0),
                   (''totalChunks'', JNum 1)]) ''fileSize'' = JNum 0 \<and>
   js_field (JObj [(''fileName'', JStr ''a.bin''), (''fileSize'', JNum 0),
                   (''totalChunks'', JNum 1)]) ''totalChunks'' = JNum 1 \<and>
   \<not> js_gt example_platform (JNum 0) MAX_FILE_SIZE"
  by (simp add: onRequestPost_def example_outside_def example_request_def js_field_def
      js_gt_def js_number_def MAX_FILE_SIZE_def Let_def)

lemma kv_put_Inr:
  "kv_put kv k v t = Inr kv' \<Longrightarrow> kv' = kv\<lparr>entries := (entries kv)(k \<mapsto> (v, t))\<rparr>"
  by (auto simp: kv_put_def split: option.splits)

lemma normalizedStorage_valid: "normalizedStorage v \<in> set validModes"
  by (cases v) (simp_all add: normalizedStorage_def validModes_def)

lemma normalizedStorage_known:
  "m \<in> set validModes \<Longrightarrow> normalizedStorage (JStr m) = m"
  by (simp add: normalizedStorage_def)

lemma normalizedStorage_default:
  "(\<And>m. m \<in> set validModes \<Longrightarrow> v \<noteq> JStr m) \<Longrightarrow> normalizedStorage v = ''telegram''"
  by (cases v) (auto simp: normalizedStorage_def)

lemma length_generateUploadId: "length (generateUploadId rnd) = 2 * length rnd"
  by (induction rnd) (simp_all add: generateUploadId_def hex2_def)

lemma uploadTask_fields:
  "js_field (uploadTask uid fileName fileSize fileType totalChunks storage created) ''uploadId''
     = JStr uid"
  "js_field (uploadTask uid fileName fileSize fileType totalChunks storage created) ''fileName''
     = fileName"
  "js_field (uploadTask uid fileName fileSize fileType totalChunks storage created) ''fileSize''
     = fileSize"
  "js_field (uploadTask uid fileName fileSize fileType totalChunks storage created) ''totalChunks''
     = totalChunks"
  "js_field (uploadTask uid fileName fileSize fileType totalChunks storage created) ''storageMode''
     = JStr storage"
  "js_field (uploadTask uid fileName fileSize fileType totalChunks storage created)
     ''uploadedChunks'' = JArr []"
  "js_field (uploadTask uid fileName fileSize fileType totalChunks storage created) ''status''
     = JStr ''pending''"
  by (simp_all add: uploadTask_def js_field_def)

lemma onRequestPost_success:
  assumes res: "onRequestPost P out request env = (resp, env')"
    and ok: "response_status resp = 200"
  obtains body kv where "json request = Inr body" "present_body body" "img_url env = Some kv"
    "put_failure kv (''upload:'' @ generateUploadId (random_bytes out)) = None"
    "resp = \<lparr>response_status = 200,
             response_body = InitBody True (generateUploadId (random_bytes out)) CHUNK_SIZE\<rparr>"
    "env' = env\<lparr>img_url := Some (kv\<lparr>entries := (entries kv)
        (''upload:'' @ generateUploadId (random_bytes out) \<mapsto>
           (JSON_stringify P
              (uploadTask (generateUploadId (random_bytes out))
                 (js_field body ''fileName'') (js_field body ''fileSize'')
                 (js_field body ''fileType'') (js_field body ''totalChunks'')
                 (normalizedStorage (js_field body ''storageMode'')) (date_now_ms out)),
            3600))\<rparr>)\<rparr>"
proof -
  have adm: "admitted P out request env"
  proof (rule ccontr)
    assume "\<not> admitted P out request env"
    then have "onRequestPost P out request env =
        (\<lparr>response_status = 403, response_body = ErrorBody GuestNoChunkedUpload\<rparr>, env)"
      by (rule onRequestPost_not_admitted)
    with res have "response_status resp = 403" by auto
    with ok show False by simp
  qed
  obtain body where body: "json request = Inr body"
  proof (cases "json request")
    case (Inl e)
    with adm have "onRequestPost P out request env =
        (\<lparr>response_status = 500, response_body = ErrorBody (Thrown e)\<rparr>, env)"
      by (rule onRequestPost_bad_json)
    with res have "response_status resp = 500" by auto
    with ok show ?thesis by simp
  next
    case (Inr b)
    then show ?thesis by (rule that)
  qed
  have pres: "present_body body"
  proof (rule ccontr)
    assume "\<not> present_body body"
    with adm body have "onRequestPost P out request env =
        (\<lparr>response_status = 500, response_body = ErrorBody (Thrown TypeError)\<rparr>, env)"
      by (rule onRequestPost_null_body)
    with res have "response_status resp = 500" by auto
    with ok show False by simp
  qed
  note v = onRequestPost_validated [OF adm body pres]
  from res ok obtain kv where kv: "img_url env = Some kv"
    unfolding v by (auto split: if_splits option.splits)
  from res ok kv have nf: "put_failure kv (''upload:'' @ generateUploadId (random_bytes out)) = None"
    unfolding v by (auto simp: kv_put_def split: if_splits option.splits)
  from res ok kv nf have
    "resp = \<lparr>response_status = 200,
             response_body = InitBody True (generateUploadId (random_bytes out)) CHUNK_SIZE\<rparr>"
    "env' = env\<lparr>img_url := Some (kv\<lparr>entries := (entries kv)
        (''upload:'' @ generateUploadId (random_bytes out) \<mapsto>
           (JSON_stringify P
              (uploadTask (generateUploadId (random_bytes out))
                 (js_field body ''fileName'') (js_field body ''fileSize'')
                 (js_field body ''fileType'') (js_field body ''totalChunks'')
                 (normalizedStorage (js_field body ''storageMode'')) (date_now_ms out)),
            3600))\<rparr>)\<rparr>"
    unfolding v by (auto simp: kv_put_def split: if_splits)
  with body pres kv nf show ?thesis by (rule that)
qed


lemma hexdigit_inj:
  assumes "hexdigit m = hexdigit n" "m < 16" "n < 16"
  shows "m = n"
proof -
  have "distinct ''0123456789abcdef''" by simp
  moreover have "m < length ''0123456789abcdef''" "n < length ''0123456789abcdef''"
    using assms by simp_all
  moreover have "''0123456789abcdef'' ! m = ''0123456789abcdef'' ! n"
    using assms by (simp add: hexdigit_def)
  ultimately show ?thesis by (simp only: nth_eq_iff_index_eq)
qed

lemma hex2_inj:
  assumes "hex2 a = hex2 b"
  shows "a = b"
proof -
  let ?a = "of_char a :: nat" and ?b = "of_char b :: nat"
  have lt: "?a < 16 * 16" "?b < 16 * 16" by simp_all
  have hi: "?a div 16 < 16" "?b div 16 < 16"
    by (rule less_mult_imp_div_less, rule lt(1)) (rule less_mult_imp_div_less, rule lt(2))
  have lo: "?a mod 16 < 16" "?b mod 16 < 16" by simp_all
  from assms have "hexdigit (?a div 16) = hexdigit (?b div 16)"
    and "hexdigit (?a mod 16) = hexdigit (?b mod 16)"
    by (simp_all add: hex2_def)
  then have d: "?a div 16 = ?b div 16" and m: "?a mod 16 = ?b mod 16"
    using hi lo by (blast intro: hexdigit_inj)+
  have "?a = ?a div 16 * 16 + ?a mod 16" by (simp only: div_mult_mod_eq)
  also have "\<dots> = ?b div 16 * 16 + ?b mod 16" by (simp only: d m)
  also have "\<dots> = ?b" by (simp only: div_mult_mod_eq)
  finally show ?thesis by (simp only: of_char_eq_iff)
qed

lemma generateUploadId_inj:
  "generateUploadId r = generateUploadId r' \<Longrightarrow> r = r'"
proof (induction r arbitrary: r')
  case Nil
  then show ?case by (cases r') (simp_all add: generateUploadId_def hex2_def)
next
  case (Cons a r)
  show ?case
  proof (cases r')
    case Nil
    with Cons.prems show ?thesis by (simp add: generateUploadId_def hex2_def)
  next
    case (Cons b r'')
    with Cons.prems have "hex2 a @ generateUploadId r = hex2 b @ generateUploadId r''"
      by (simp add: generateUploadId_def)
    moreover have "length (hex2 a) = length (hex2 b)" by (simp add: hex2_def)
    ultimately have "hex2 a = hex2 b" "generateUploadId r = generateUploadId r''" by simp_all
    with Cons.IH Cons show ?thesis by (simp add: hex2_inj)
  qed
qed

lemma example_init_response:
  "fst example_init =
     \<lparr>response_status = 200,
      response_body = InitBody True ''000102030405060708090a0b0c0dfeff'' CHUNK_SIZE\<rparr>"
  unfolding example_init_def
  by (simp add: onRequestPost_validated [OF example_admitted, where body =
        "JObj [(''fileName'', JStr ''a.bin''), (''fileSize'', JNum 104857600),
               (''totalChunks'', JNum 20), (''storageMode'', JStr ''s3'')]"]
      example_request_def present_body_def js_field_def js_gt_def js_number_def
      MAX_FILE_SIZE_def example_limits kv_put_def empty_store_facts example_uploadId)

text \<open>
  Claim C4. When session initialisation answers 200, the answer is
  \<open>{success: true, uploadId, chunkSize}\<close>, where \<open>uploadId\<close> is the hexadecimal print
  of the random bytes (two digits per byte, and different bytes give different
  identifiers); the store has gained, under the key \<open>upload:{uploadId}\<close> and with an
  expiry of 3600 seconds, the serialised session, whose status is \<open>pending\<close>, whose
  \<open>uploadedChunks\<close> is empty and whose storage mode is a member of the closed set of
  modes: the mode supplied when that is a member, \<open>telegram\<close> otherwise; the other
  entries of the store are unchanged.
\<close>

theorem init_success:
  assumes res: "onRequestPost P out request env = (resp, env')"
    and ok: "response_status resp = 200"
  shows "\<exists>body kv kv' task.
    json request = Inr body \<and> img_url env = Some kv \<and> env' = env\<lparr>img_url := Some kv'\<rparr> \<and>
    resp = \<lparr>response_status = 200,
            response_body = InitBody True (generateUploadId (random_bytes out)) CHUNK_SIZE\<rparr> \<and>
    length (generateUploadId (random_bytes out)) = 2 * length (random_bytes out) \<and>
    (\<forall>r. generateUploadId r = generateUploadId (random_bytes out) \<longrightarrow> r = random_bytes out) \<and>
    entries kv' (''upload:'' @ generateUploadId (random_bytes out)) =
      Some (JSON_stringify P task, 3600) \<and>
    (\<forall>k. k \<noteq> ''upload:'' @ generateUploadId (random_bytes out) \<longrightarrow>
          entries kv' k = entries kv k) \<and>
    js_field task ''uploadId'' = JStr (generateUploadId (random_bytes out)) \<and>
    js_field task ''status'' = JStr ''pending'' \<and>
    js_field task ''uploadedChunks'' = JArr [] \<and>
    js_field task ''storageMode'' = JStr (normalizedStorage (js_field body ''storageMode'')) \<and>
    normalizedStorage (js_field body ''storageMode'') \<in> set validModes \<and>
    (\<forall>m. m \<in> set validModes \<and> js_field body ''storageMode'' = JStr m \<longrightarrow>
          normalizedStorage (js_field body ''storageMode'') = m) \<and>
    ((\<forall>m\<in>set validModes. js_field body ''storageMode'' \<noteq> JStr m) \<longrightarrow>
          normalizedStorage (js_field body ''storageMode'') = ''telegram'')"
proof -
  let ?id = "generateUploadId (random_bytes out)"
  from res ok obtain body kv where body: "json request = Inr body"
    and kv: "img_url env = Some kv"
    and resp: "resp = \<lparr>response_status = 200, response_body = InitBody True ?id CHUNK_SIZE\<rparr>"
    and env': "env' = env\<lparr>img_url := Some (kv\<lparr>entries := (entries kv)
        (''upload:'' @ ?id \<mapsto>
           (JSON_stringify P
              (uploadTask ?id
                 (js_field body ''fileName'') (js_field body ''fileSize'')
                 (js_field body ''fileType'') (js_field body ''totalChunks'')
                 (normalizedStorage (js_field body ''storageMode'')) (date_now_ms out)),
            3600))\<rparr>)\<rparr>"
    by (rule onRequestPost_success)
  let ?task = "uploadTask ?id (js_field body ''fileName'') (js_field body ''fileSize'')
                 (js_field body ''fileType'') (js_field body ''totalChunks'')
                 (normalizedStorage (js_field body ''storageMode'')) (date_now_ms out)"
  let ?kv' = "kv\<lparr>entries := (entries kv)(''upload:'' @ ?id \<mapsto> (JSON_stringify P ?task, 3600))\<rparr>"
  have inj: "\<forall>r. generateUploadId r = ?id \<longrightarrow> r = random_bytes out"
    by (auto dest: generateUploadId_inj)
  have stored: "entries ?kv' (''upload:'' @ ?id) = Some (JSON_stringify P ?task, 3600)"
    by simp
  have others: "\<forall>k. k \<noteq> ''upload:'' @ ?id \<longrightarrow> entries ?kv' k = entries kv k"
    by simp
  have known: "\<forall>m. m \<in> set validModes \<and> js_field body ''storageMode'' = JStr m \<longrightarrow>
          normalizedStorage (js_field body ''storageMode'') = m"
    by (auto simp: normalizedStorage_known)
  have default: "(\<forall>m\<in>set validModes. js_field body ''storageMode'' \<noteq> JStr m) \<longrightarrow>
          normalizedStorage (js_field body ''storageMode'') = ''telegram''"
    by (auto intro: normalizedStorage_default)
  show ?thesis
    apply (rule exI [of _ body], rule exI [of _ kv], rule exI [of _ ?kv'], rule exI [of _ ?task])
    apply (intro conjI)
    apply (rule body, rule kv, rule env', rule resp, rule length_generateUploadId, rule inj,
        rule stored, rule others, rule uploadTask_fields, rule uploadTask_fields,
        rule uploadTask_fields, rule uploadTask_fields, rule normalizedStorage_valid,
        rule known, rule default)
    done
qed

theorem init_success_witness:
  "onRequestPost example_platform example_outside example_request example_env =
     (fst example_init, snd example_init) \<and>
   response_status (fst example_init) = 200 \<and>
   (\<exists>body kv kv' task.
    json example_request = Inr body \<and> img_url example_env = Some kv \<and> snd example_init = example_env\<lparr>img_url := Some kv'\<rparr> \<and>
    fst example_init = \<lparr>response_status = 200,
            response_body = InitBody True (generateUploadId (random_bytes example_outside)) CHUNK_SIZE\<rparr> \<and>
    length (generateUploadId (random_bytes example_outside)) = 2 * length (random_bytes example_outside) \<and>
    (\<forall>r. generateUploadId r = generateUploadId (random_bytes example_outside) \<longrightarrow> r = random_bytes example_outside) \<and>
    entries kv' (''upload:'' @ generateUploadId (random_bytes example_outside)) =
      Some (JSON_stringify example_platform task, 3600) \<and>
    (\<forall>k. k \<noteq> ''upload:'' @ generateUploadId (random_bytes example_outside) \<longrightarrow>
          entries kv' k = entries kv k) \<and>
    js_field task ''uploadId'' = JStr (generateUploadId (random_bytes example_outside)) \<and>
    js_field task ''status'' = JStr ''pending'' \<and>
    js_field task ''uploadedChunks'' = JArr [] \<and>
    js_field task ''storageMode'' = JStr (normalizedStorage (js_field body ''storageMode'')) \<and>
    normalizedStorage (js_field body ''storageMode'') \<in> set validModes \<and>
    (\<forall>m. m \<in> set validModes \<and> js_field body ''storageMode'' = JStr m \<longrightarrow>
          normalizedStorage (js_field body ''storageMode'') = m) \<and>
    ((\<forall>m\<in>set validModes. js_field body ''storageMode'' \<noteq> JStr m) \<longrightarrow>
          normalizedStorage (js_field body ''storageMode'') = ''telegram''))"
proof -
  have h1: "onRequestPost example_platform example_outside example_request example_env =
     (fst example_init, snd example_init)"
    by (simp add: example_init_def)
  have h2: "response_status (fst example_init) = 200"
    by (simp add: example_init_response)
  from h1 h2 init_success [OF h1 h2] show ?thesis by (intro conjI)
qed


section \<open>The S3 client, the delete operations and the Discord upload\<close>

lemma signRequest_succeeds:
  "newURL P u = Some pu \<Longrightarrow> \<exists>signed. signRequest P now method u hdrs body cred = Inr signed"
  by (simp add: signRequest_def Let_def)

lemma not_ok_404: "status response = 404 \<Longrightarrow> \<not> ok response"
  by (simp add: ok_def)

lemma getObject_answer:
  assumes "newURL P (getUrl this key) = Some pu"
  shows "getObject P now (\<lambda>req. Inr response) this key rng =
     (if ok response then Inr (Some response)
      else if status response = 404 then Inr None
      else Inl (JsError (''S3 GetObject failed ('' @ decimal (status response) @ ''): '' @
                         text_of response)))"
proof -
  from assms obtain signed where
    "signRequest P now ''GET'' (getUrl this key)
       (if str_truthy rng then obj_set [] ''range'' (the rng) else []) NoBody
       (getCredentials this) = Inr signed"
    using signRequest_succeeds by blast
  then show ?thesis by (auto simp: getObject_def Let_def ok_def)
qed

lemma headObject_answer:
  assumes "newURL P (getUrl this key) = Some pu"
  shows "headObject P now (\<lambda>req. Inr response) this key =
     (if ok response then
        Inr (Some \<lparr>head_contentLength =
                      parseInt (if str_truthy (headers_get response ''content-length'')
                                then the (headers_get response ''content-length'') else ''0''),
                   head_contentType = headers_get response ''content-type'',
                   head_etag = headers_get response ''etag'',
                   head_lastModified = headers_get response ''last-modified''\<rparr>)
      else if status response = 404 then Inr None
      else Inl (JsError (''S3 HeadObject failed ('' @ decimal (status response) @ '')'')))"
proof -
  from assms obtain signed where
    "signRequest P now ''HEAD'' (getUrl this key) [] NoBody (getCredentials this) = Inr signed"
    using signRequest_succeeds by blast
  then show ?thesis by (simp add: headObject_def Let_def)
qed

lemma deleteObject_answer:
  assumes "newURL P (getUrl this key) = Some pu"
  shows "deleteObject P now (\<lambda>req. Inr response) this key =
     (if ok response then Inr True
      else Inl (JsError (''S3 DeleteObject failed ('' @ decimal (status response) @ ''): '' @
                         text_of response)))"
proof -
  from assms obtain signed where
    "signRequest P now ''DELETE'' (getUrl this key) [] NoBody (getCredentials this) = Inr signed"
    using signRequest_succeeds by blast
  then show ?thesis by (auto simp: deleteObject_def Let_def ok_def)
qed

lemma s3_transport_failure:
  assumes "newURL P (getUrl this key) = Some pu"
  shows "getObject P now (\<lambda>req. Inl e) this key rng = Inl e"
    and "headObject P now (\<lambda>req. Inl e) this key = Inl e"
    and "deleteObject P now (\<lambda>req. Inl e) this key = Inl e"
proof -
  from assms obtain s1 where
    "signRequest P now ''GET'' (getUrl this key)
       (if str_truthy rng then obj_set [] ''range'' (the rng) else []) NoBody
       (getCredentials this) = Inr s1"
    using signRequest_succeeds by blast
  then show "getObject P now (\<lambda>req. Inl e) this key rng = Inl e"
    by (simp add: getObject_def Let_def)
  from assms obtain s2 where
    "signRequest P now ''HEAD'' (getUrl this key) [] NoBody (getCredentials this) = Inr s2"
    using signRequest_succeeds by blast
  then show "headObject P now (\<lambda>req. Inl e) this key = Inl e"
    by (simp add: headObject_def Let_def)
  from assms obtain s3 where
    "signRequest P now ''DELETE'' (getUrl this key) [] NoBody (getCredentials this) = Inr s3"
    using signRequest_succeeds by blast
  then show "deleteObject P now (\<lambda>req. Inl e) this key = Inl e"
    by (simp add: deleteObject_def Let_def)
qed

lemma getObject_null:
  assumes "getObject P now fetch this key rng = Inr None"
  shows "\<exists>req response. fetch req = Inr response \<and> status response = 404"
  using assms
  by (auto simp: getObject_def Let_def split: sum.splits if_splits)

lemma headObject_null:
  assumes "headObject P now fetch this key = Inr None"
  shows "\<exists>req response. fetch req = Inr response \<and> status response = 404"
  using assms
  by (auto simp: headObject_def Let_def split: sum.splits if_splits)

lemma getObject_answers:
  assumes "newURL P (getUrl this key) = Some pu" and "answers fetch ''GET'' response"
  shows "getObject P now fetch this key rng =
     (if ok response then Inr (Some response)
      else if status response = 404 then Inr None
      else Inl (JsError (''S3 GetObject failed ('' @ decimal (status response) @ ''): '' @
                         text_of response)))"
proof -
  from assms(1) obtain signed where
    "signRequest P now ''GET'' (getUrl this key)
       (if str_truthy rng then obj_set [] ''range'' (the rng) else []) NoBody
       (getCredentials this) = Inr signed"
    using signRequest_succeeds by blast
  moreover have "fetch \<lparr>fetch_url = getUrl this key, fetch_method = ''GET'',
      fetch_headers = signed, fetch_body = NoFetchBody\<rparr> = Inr response"
    using assms(2) by (simp add: answers_def)
  ultimately show ?thesis by (auto simp: getObject_def Let_def ok_def)
qed

lemma headObject_answers:
  assumes "newURL P (getUrl this key) = Some pu" and "answers fetch ''HEAD'' response"
  shows "headObject P now fetch this key =
     (if ok response then
        Inr (Some \<lparr>head_contentLength =
                      parseInt (if str_truthy (headers_get response ''content-length'')
                                then the (headers_get response ''content-length'') else ''0''),
                   head_contentType = headers_get response ''content-type'',
                   head_etag = headers_get response ''etag'',
                   head_lastModified = headers_get response ''last-modified''\<rparr>)
      else if status response = 404 then Inr None
      else Inl (JsError (''S3 HeadObject failed ('' @ decimal (status response) @ '')'')))"
proof -
  from assms(1) obtain signed where
    "signRequest P now ''HEAD'' (getUrl this key) [] NoBody (getCredentials this) = Inr signed"
    using signRequest_succeeds by blast
  moreover have "fetch \<lparr>fetch_url = getUrl this key, fetch_method = ''HEAD'',
      fetch_headers = signed, fetch_body = NoFetchBody\<rparr> = Inr response"
    using assms(2) by (simp add: answers_def)
  ultimately show ?thesis by (simp add: headObject_def Let_def)
qed

lemma getObject_null_request:
  assumes "getObject P now fetch this key rng = Inr None"
  shows "\<exists>req response. fetch_method req = ''GET'' \<and> fetch_url req = getUrl this key \<and>
     fetch req = Inr response \<and> status response = 404"
proof -
  let ?hdrs = "if str_truthy rng then obj_set [] ''range'' (the rng) else []"
  from assms obtain signed where
    s: "signRequest P now ''GET'' (getUrl this key) ?hdrs NoBody (getCredentials this) = Inr signed"
    by (auto simp: getObject_def Let_def split: sum.splits)
  let ?req = "\<lparr>fetch_url = getUrl this key, fetch_method = ''GET'', fetch_headers = signed,
                fetch_body = NoFetchBody\<rparr>"
  from assms s obtain response where r: "fetch ?req = Inr response"
    by (auto simp: getObject_def Let_def split: sum.splits)
  from assms s r have "status response = 404"
    by (auto simp: getObject_def Let_def split: if_splits)
  with r have "fetch_method ?req = ''GET'' \<and> fetch_url ?req = getUrl this key \<and>
     fetch ?req = Inr response \<and> status response = 404"
    by simp
  then show ?thesis by blast
qed

lemma headObject_null_request:
  assumes "headObject P now fetch this key = Inr None"
  shows "\<exists>req response. fetch_method req = ''HEAD'' \<and> fetch_url req = getUrl this key \<and>
     fetch req = Inr response \<and> status response = 404"
proof -
  from assms obtain signed where
    s: "signRequest P now ''HEAD'' (getUrl this key) [] NoBody (getCredentials this) = Inr signed"
    by (auto simp: headObject_def Let_def split: sum.splits)
  let ?req = "\<lparr>fetch_url = getUrl this key, fetch_method = ''HEAD'', fetch_headers = signed,
                fetch_body = NoFetchBody\<rparr>"
  from assms s obtain response where r: "fetch ?req = Inr response"
    by (auto simp: headObject_def Let_def split: sum.splits)
  from assms s r have "status response = 404"
    by (auto simp: headObject_def Let_def split: if_splits)
  with r have "fetch_method ?req = ''HEAD'' \<and> fetch_url ?req = getUrl this key \<and>
     fetch ?req = Inr response \<and> status response = 404"
    by simp
  then show ?thesis by blast
qed

lemma example_client_url:
  "newURL example_platform (getUrl example_client example_key) = Some example_url"
  by (simp add: example_platform_def getUrl_def example_client_def example_key_def)

lemma decimal_examples:
  "decimal 403 = ''403''" "decimal 404 = ''404''" "decimal 500 = ''500''"
  by code_simp+

lemma deleteDiscordMessage_boolean:
  "\<exists>b. deleteDiscordMessage fetch channelId messageId env = Inr b"
  by (cases "str_truthy (DISCORD_BOT_TOKEN env)")
     (auto simp: deleteDiscordMessage_def split: sum.splits)

lemma deleteHuggingFaceFile_boolean:
  "\<exists>b. deleteHuggingFaceFile P fetch pathInRepo env = Inr b"
  by (cases "\<not> str_truthy (HF_TOKEN env) \<or> \<not> str_truthy (HF_REPO env)")
     (auto simp: deleteHuggingFaceFile_def Let_def split: sum.splits)

lemma example_deleteObject:
  "deleteObject example_platform example_date (answer 500 ''InternalError'') example_client
     example_key = Inl (JsError ''S3 DeleteObject failed (500): InternalError'')"
  using deleteObject_answer [OF example_client_url, of example_date
      "\<lparr>status = 500, text_of = ''InternalError'', headers_get = (\<lambda>h. None)\<rparr>"]
  by (simp add: answer_def ok_def decimal_examples)

text \<open>
  Claim C5. A response to a \<open>HEAD\<close> request has no body, so its text is empty. When the
  URL parses and the provider answers, \<open>getObject\<close> and \<open>headObject\<close> return \<open>null\<close>
  exactly when the status is 404. For any other status outside 200..299 they throw an
  \<open>Error\<close> whose message carries the status and the text of the provider's answer:
  \<open>S3 GetObject failed (status): text\<close>, and \<open>S3 HeadObject failed (status)\<close> where
  there is no text. For a status in 200..299 they return the response, or its header
  information. Whatever the network does, \<open>null\<close> is returned only when the request of
  the function was answered with status 404, and an exception of \<open>fetch\<close> leaves both
  functions as it is.
\<close>

theorem s3_get_and_head:
  assumes "newURL P (getUrl this key) = Some pu"
    and "answers fetch ''GET'' got" and "answers fetch ''HEAD'' headed"
    and "text_of headed = []"
  shows
   "(getObject P now fetch this key rng = Inr None \<longleftrightarrow> status got = 404) \<and>
    (headObject P now fetch this key = Inr None \<longleftrightarrow> status headed = 404) \<and>
    (\<not> ok got \<and> status got \<noteq> 404 \<longrightarrow>
       (\<exists>msg. getObject P now fetch this key rng = Inl (JsError msg) \<and>
          msg = ''S3 GetObject failed ('' @ decimal (status got) @ ''): '' @ text_of got \<and>
          sublist (decimal (status got)) msg \<and> sublist (text_of got) msg)) \<and>
    (\<not> ok headed \<and> status headed \<noteq> 404 \<longrightarrow>
       (\<exists>msg. headObject P now fetch this key = Inl (JsError msg) \<and>
          msg = ''S3 HeadObject failed ('' @ decimal (status headed) @ '')'' \<and>
          sublist (decimal (status headed)) msg \<and> sublist (text_of headed) msg)) \<and>
    (ok got \<longrightarrow> getObject P now fetch this key rng = Inr (Some got)) \<and>
    (ok headed \<longrightarrow> (\<exists>info. headObject P now fetch this key = Inr (Some info))) \<and>
    (\<forall>net. getObject P now net this key rng = Inr None \<longrightarrow>
       (\<exists>req answered. fetch_method req = ''GET'' \<and> fetch_url req = getUrl this key \<and>
          net req = Inr answered \<and> status answered = 404)) \<and>
    (\<forall>net. headObject P now net this key = Inr None \<longrightarrow>
       (\<exists>req answered. fetch_method req = ''HEAD'' \<and> fetch_url req = getUrl this key \<and>
          net req = Inr answered \<and> status answered = 404)) \<and>
    getObject P now (\<lambda>req. Inl e) this key rng = Inl e \<and>
    headObject P now (\<lambda>req. Inl e) this key = Inl e"
proof -
  note g = getObject_answers [OF assms(1,2), of now rng]
  note h = headObject_answers [OF assms(1,3), of now]
  have c1: "getObject P now fetch this key rng = Inr None \<longleftrightarrow> status got = 404"
    unfolding g by (auto simp: not_ok_404)
  have c2: "headObject P now fetch this key = Inr None \<longleftrightarrow> status headed = 404"
    unfolding h by (auto simp: not_ok_404)
  have s1: "sublist d (''S3 GetObject failed ('' @ d @ ''): '' @ t)" for d t :: string
    by (rule sublist_appendI)
  have s2: "sublist t (''S3 GetObject failed ('' @ d @ ''): '' @ t)" for d t :: string
    using sublist_appendI [of t "''S3 GetObject failed ('' @ d @ ''): ''" "[]"] by simp
  have s3: "sublist d (''S3 HeadObject failed ('' @ d @ '')'')" for d :: string
    by (rule sublist_appendI)
  have c3: "\<not> ok got \<and> status got \<noteq> 404 \<longrightarrow>
       (\<exists>msg. getObject P now fetch this key rng = Inl (JsError msg) \<and>
          msg = ''S3 GetObject failed ('' @ decimal (status got) @ ''): '' @ text_of got \<and>
          sublist (decimal (status got)) msg \<and> sublist (text_of got) msg)"
    unfolding g using s1 s2 by simp
  have c4: "\<not> ok headed \<and> status headed \<noteq> 404 \<longrightarrow>
       (\<exists>msg. headObject P now fetch this key = Inl (JsError msg) \<and>
          msg = ''S3 HeadObject failed ('' @ decimal (status headed) @ '')'' \<and>
          sublist (decimal (status headed)) msg \<and> sublist (text_of headed) msg)"
    unfolding h using s3 by (simp add: assms(4))
  have c5: "ok got \<longrightarrow> getObject P now fetch this key rng = Inr (Some got)"
    unfolding g by simp
  have c6: "ok headed \<longrightarrow> (\<exists>info. headObject P now fetch this key = Inr (Some info))"
    unfolding h by simp
  have c7: "\<forall>net. getObject P now net this key rng = Inr None \<longrightarrow>
       (\<exists>req answered. fetch_method req = ''GET'' \<and> fetch_url req = getUrl this key \<and>
          net req = Inr answered \<and> status answered = 404)"
    using getObject_null_request by blast
  have c8: "\<forall>net. headObject P now net this key = Inr None \<longrightarrow>
       (\<exists>req answered. fetch_method req = ''HEAD'' \<and> fetch_url req = getUrl this key \<and>
          net req = Inr answered \<and> status answered = 404)"
    using headObject_null_request by blast
  note c9 = s3_transport_failure(1,2) [OF assms(1)]
  from c1 c2 c3 c4 c5 c6 c7 c8 c9 show ?thesis by (intro conjI)
qed

theorem s3_get_and_head_witness:
  "getObject example_platform example_date (provider 404 ''NoSuchKey'') example_client
     example_key None = Inr None \<and>
   headObject example_platform example_date (provider 404 ''NoSuchKey'') example_client
     example_key = Inr None \<and>
   getObject example_platform example_date (provider 403 ''AccessDenied'') example_client
     example_key None = Inl (JsError ''S3 GetObject failed (403): AccessDenied'') \<and>
   headObject example_platform example_date (provider 403 ''AccessDenied'') example_client
     example_key = Inl (JsError ''S3 HeadObject failed (403)'') \<and>
   getObject example_platform example_date (provider 403 ''AccessDenied'') example_client
     example_key None \<noteq> Inr None \<and>
   getObject example_platform example_date (provider 200 ''bytes'') example_client example_key
     None = Inr (Some \<lparr>status = 200, text_of = ''bytes'', headers_get = (\<lambda>h. None)\<rparr>)"
proof -
  have a: "answers (provider code msg) ''GET''
       \<lparr>status = code, text_of = msg, headers_get = (\<lambda>h. None)\<rparr>"
    "answers (provider code msg) ''HEAD''
       \<lparr>status = code, text_of = [], headers_get = (\<lambda>h. None)\<rparr>" for code msg
    by (simp_all add: answers_def provider_def)
  have t: "text_of \<lparr>status = code, text_of = [], headers_get = (\<lambda>h. None)\<rparr> = []" for code
    by simp
  note th = s3_get_and_head [OF example_client_url a t, where now = example_date and rng = None]
  have w1: "getObject example_platform example_date (provider 404 ''NoSuchKey'') example_client
      example_key None = Inr None"
    using th [of 404 "''NoSuchKey''", THEN conjunct1] by simp
  have w2: "headObject example_platform example_date (provider 404 ''NoSuchKey'') example_client
      example_key = Inr None"
    using th [of 404 "''NoSuchKey''", THEN conjunct2, THEN conjunct1] by simp
  have w3: "getObject example_platform example_date (provider 403 ''AccessDenied'')
      example_client example_key None = Inl (JsError ''S3 GetObject failed (403): AccessDenied'')"
    using th [of 403 "''AccessDenied''", THEN conjunct2, THEN conjunct2, THEN conjunct1]
    by (simp add: ok_def decimal_examples)
  have w4: "headObject example_platform example_date (provider 403 ''AccessDenied'')
      example_client example_key = Inl (JsError ''S3 HeadObject failed (403)'')"
    using th [of 403 "''AccessDenied''", THEN conjunct2, THEN conjunct2, THEN conjunct2,
        THEN conjunct1]
    by (simp add: ok_def decimal_examples)
  have w5: "getObject example_platform example_date (provider 403 ''AccessDenied'')
      example_client example_key None \<noteq> Inr None"
    using th [of 403 "''AccessDenied''", THEN conjunct1] by simp
  have w6: "getObject example_platform example_date (provider 200 ''bytes'') example_client
      example_key None
     = Inr (Some \<lparr>status = 200, text_of = ''bytes'', headers_get = (\<lambda>h. None)\<rparr>)"
    using th [of 200 "''bytes''", THEN conjunct2, THEN conjunct2, THEN conjunct2,
        THEN conjunct2, THEN conjunct1]
    by (simp add: ok_def)
  from w1 w2 w3 w4 w5 w6 show ?thesis by (intro conjI)
qed

text \<open>
  Claim C6, as amended. The delete operations of the Discord and of the HuggingFace
  module always return a boolean: \<open>false\<close> when \<open>fetch\<close> throws, when the status is
  outside 200..299, and when the credentials are missing. \<open>deleteObject\<close> of the S3
  client returns \<open>true\<close> for a status in 200..299 and throws an \<open>Error\<close> carrying
  the status and the provider's text for any other status; an exception of \<open>fetch\<close>
  leaves it as it is.
\<close>

theorem delete_results:
  "(\<exists>b. deleteDiscordMessage fetch channelId messageId env = Inr b) \<and>
   (\<exists>b. deleteHuggingFaceFile P fetch pathInRepo env = Inr b) \<and>
   deleteDiscordMessage (\<lambda>req. Inl e) channelId messageId env = Inr False \<and>
   deleteHuggingFaceFile P (\<lambda>req. Inl e) pathInRepo env = Inr False \<and>
   (\<not> ok response \<longrightarrow>
      deleteDiscordMessage (\<lambda>req. Inr response) channelId messageId env = Inr False \<and>
      deleteHuggingFaceFile P (\<lambda>req. Inr response) pathInRepo env = Inr False) \<and>
   (\<not> str_truthy (DISCORD_BOT_TOKEN env) \<longrightarrow>
      deleteDiscordMessage fetch channelId messageId env = Inr False) \<and>
   (\<not> str_truthy (HF_TOKEN env) \<or> \<not> str_truthy (HF_REPO env) \<longrightarrow>
      deleteHuggingFaceFile P fetch pathInRepo env = Inr False) \<and>
   (newURL P (getUrl this key) = Some pu \<longrightarrow>
      deleteObject P now (\<lambda>req. Inr response) this key =
        (if ok response then Inr True
         else Inl (JsError (''S3 DeleteObject failed ('' @ decimal (status response) @ ''): '' @
                            text_of response))) \<and>
      deleteObject P now (\<lambda>req. Inl e) this key = Inl e)"
proof (intro conjI)
  show "\<exists>b. deleteDiscordMessage fetch channelId messageId env = Inr b"
    by (rule deleteDiscordMessage_boolean)
  show "\<exists>b. deleteHuggingFaceFile P fetch pathInRepo env = Inr b"
    by (rule deleteHuggingFaceFile_boolean)
  show "deleteDiscordMessage (\<lambda>req. Inl e) channelId messageId env = Inr False"
    by (simp add: deleteDiscordMessage_def)
  show "deleteHuggingFaceFile P (\<lambda>req. Inl e) pathInRepo env = Inr False"
    by (simp add: deleteHuggingFaceFile_def Let_def)
  show "\<not> ok response \<longrightarrow>
      deleteDiscordMessage (\<lambda>req. Inr response) channelId messageId env = Inr False \<and>
      deleteHuggingFaceFile P (\<lambda>req. Inr response) pathInRepo env = Inr False"
    by (auto simp: deleteDiscordMessage_def deleteHuggingFaceFile_def Let_def ok_def)
  show "\<not> str_truthy (DISCORD_BOT_TOKEN env) \<longrightarrow>
      deleteDiscordMessage fetch channelId messageId env = Inr False"
    by (simp add: deleteDiscordMessage_def)
  show "\<not> str_truthy (HF_TOKEN env) \<or> \<not> str_truthy (HF_REPO env) \<longrightarrow>
      deleteHuggingFaceFile P fetch pathInRepo env = Inr False"
    by (auto simp: deleteHuggingFaceFile_def)
  show "newURL P (getUrl this key) = Some pu \<longrightarrow>
      deleteObject P now (\<lambda>req. Inr response) this key =
        (if ok response then Inr True
         else Inl (JsError (''S3 DeleteObject failed ('' @ decimal (status response) @ ''): '' @
                            text_of response))) \<and>
      deleteObject P now (\<lambda>req. Inl e) this key = Inl e"
    using deleteObject_answer [of P this key pu now response]
      s3_transport_failure(3) [of P this key pu now e]
    by blast
qed

theorem delete_results_witness:
  "deleteDiscordMessage (answer 403 ''Missing Access'') ''42'' ''1001'' example_env = Inr False \<and>
   deleteHuggingFaceFile example_platform (answer 401 ''Unauthorized'') ''uploads/a.png''
     example_env = Inr False \<and>
   deleteDiscordMessage (answer 204 []) ''42'' ''1001'' (example_env\<lparr>DISCORD_BOT_TOKEN := None\<rparr>)
     = Inr False \<and>
   deleteHuggingFaceFile example_platform (answer 200 []) ''uploads/a.png''
     (example_env\<lparr>HF_TOKEN := None\<rparr>) = Inr False \<and>
   deleteObject example_platform example_date (answer 500 ''InternalError'') example_client
     example_key = Inl (JsError ''S3 DeleteObject failed (500): InternalError'') \<and>
   deleteObject example_platform example_date (answer 204 []) example_client example_key
     = Inr True"
proof -
  note t = delete_results [where P = example_platform and now = example_date
      and this = example_client and key = example_key and pu = example_url
      and channelId = "''42''" and messageId = "''1001''" and pathInRepo = "''uploads/a.png''"]
  have w1: "deleteDiscordMessage (answer 403 ''Missing Access'') ''42'' ''1001'' example_env
      = Inr False"
    using t [where env = example_env
        and response = "\<lparr>status = 403, text_of = ''Missing Access'', headers_get = (\<lambda>h. None)\<rparr>",
        THEN conjunct2, THEN conjunct2, THEN conjunct2, THEN conjunct2, THEN conjunct1]
    by (simp add: answer_def ok_def)
  have w2: "deleteHuggingFaceFile example_platform (answer 401 ''Unauthorized'') ''uploads/a.png''
      example_env = Inr False"
    using t [where env = example_env
        and response = "\<lparr>status = 401, text_of = ''Unauthorized'', headers_get = (\<lambda>h. None)\<rparr>",
        THEN conjunct2, THEN conjunct2, THEN conjunct2, THEN conjunct2, THEN conjunct1]
    by (simp add: answer_def ok_def)
  have w3: "deleteDiscordMessage (answer 204 []) ''42'' ''1001''
      (example_env\<lparr>DISCORD_BOT_TOKEN := None\<rparr>) = Inr False"
    using t [where env = "example_env\<lparr>DISCORD_BOT_TOKEN := None\<rparr>" and fetch = "answer 204 []",
        THEN conjunct2, THEN conjunct2, THEN conjunct2, THEN conjunct2, THEN conjunct2,
        THEN conjunct1]
    by (simp add: str_truthy_def)
  have w4: "deleteHuggingFaceFile example_platform (answer 200 []) ''uploads/a.png''
      (example_env\<lparr>HF_TOKEN := None\<rparr>) = Inr False"
    using t [where env = "example_env\<lparr>HF_TOKEN := None\<rparr>" and fetch = "answer 200 []",
        THEN conjunct2, THEN conjunct2, THEN conjunct2, THEN conjunct2, THEN conjunct2,
        THEN conjunct2, THEN conjunct1]
    by (simp add: str_truthy_def)
  have w5: "deleteObject example_platform example_date (answer 500 ''InternalError'')
      example_client example_key = Inl (JsError ''S3 DeleteObject failed (500): InternalError'')"
    using t [where response = "\<lparr>status = 500, text_of = ''InternalError'',
        headers_get = (\<lambda>h. None)\<rparr>",
        THEN conjunct2, THEN conjunct2, THEN conjunct2, THEN conjunct2, THEN conjunct2,
        THEN conjunct2, THEN conjunct2, rule_format, OF example_client_url, THEN conjunct1]
    by (simp add: answer_def ok_def decimal_examples)
  have w6: "deleteObject example_platform example_date (answer 204 []) example_client example_key
     = Inr True"
    using t [where response = "\<lparr>status = 204, text_of = [], headers_get = (\<lambda>h. None)\<rparr>",
        THEN conjunct2, THEN conjunct2, THEN conjunct2, THEN conjunct2, THEN conjunct2,
        THEN conjunct2, THEN conjunct2, rule_format, OF example_client_url, THEN conjunct1]
    by (simp add: answer_def ok_def)
  from w1 w2 w3 w4 w5 w6 show ?thesis by (intro conjI)
qed

text \<open>
  Claim C6 as stated fails for the S3 backend: on status 500 \<open>deleteObject\<close> throws,
  it does not return \<open>false\<close>.
\<close>

theorem deleteObject_raises_counterexample:
  "deleteObject example_platform example_date (answer 500 ''InternalError'') example_client
     example_key = Inl (JsError ''S3 DeleteObject failed (500): InternalError'') \<and>
   deleteObject example_platform example_date (answer 500 ''InternalError'') example_client
     example_key \<noteq> Inr False"
  by (simp add: example_deleteObject)

text \<open>
  Claim C7. When a webhook URL is configured, whatever else is, \<open>uploadToDiscord\<close> is
  the upload through the webhook: it sends the one webhook request and returns what
  that upload returns; when that request fails, the failure is the result; and no request
  of the upload through the bot is among the requests sent.
\<close>

theorem discord_webhook_precedence:
  assumes "str_truthy (DISCORD_WEBHOOK_URL env)"
  shows
   "uploadToDiscord P fetch fileBuffer filename contentType env =
      uploadViaWebhook P fetch fileBuffer filename contentType (the (DISCORD_WEBHOOK_URL env)) \<and>
    uploadToDiscord P fetch fileBuffer filename contentType env =
      (upload_answer P (fetch (webhook_request P fileBuffer filename contentType env)),
       [webhook_request P fileBuffer filename contentType env]) \<and>
    (\<forall>e. fetch (webhook_request P fileBuffer filename contentType env) = Inl e \<longrightarrow>
       uploadToDiscord P fetch fileBuffer filename contentType env =
         (UploadFailed (ErrorCaught e), [webhook_request P fileBuffer filename contentType env])) \<and>
    (\<forall>botToken channelId.
       set (snd (uploadToDiscord P fetch fileBuffer filename contentType env)) \<inter>
       set (snd (uploadViaBot P fetch fileBuffer filename contentType botToken channelId)) = {})"
  using assms
  by (auto simp: uploadToDiscord_def uploadViaWebhook_def uploadViaBot_def webhook_request_def
      upload_answer_def Let_def)

theorem discord_webhook_precedence_witness:
  "str_truthy (DISCORD_WEBHOOK_URL example_env) \<and>
   str_truthy (DISCORD_BOT_TOKEN example_env) \<and> str_truthy (DISCORD_CHANNEL_ID example_env) \<and>
   uploadToDiscord example_platform (\<lambda>req. Inl TypeError) ''bytes'' ''a.png'' ''image/png''
       example_env =
     (UploadFailed (ErrorCaught TypeError),
      [\<lparr>fetch_url = ''https://discord.com/api/webhooks/1/token?wait=true'',
        fetch_method = ''POST'', fetch_headers = [],
        fetch_body = upload_form example_platform ''bytes'' ''a.png'' ''image/png''\<rparr>]) \<and>
   uploadToDiscord example_platform (answer 500 ''{}'') ''bytes'' ''a.png'' ''image/png''
       example_env =
     (UploadFailed (ErrorValue (JStr ''HTTP 500'')),
      [\<lparr>fetch_url = ''https://discord.com/api/webhooks/1/token?wait=true'',
        fetch_method = ''POST'', fetch_headers = [],
        fetch_body = upload_form example_platform ''bytes'' ''a.png'' ''image/png''\<rparr>])"
proof -
  have h: "str_truthy (DISCORD_WEBHOOK_URL example_env)"
    "str_truthy (DISCORD_BOT_TOKEN example_env)" "str_truthy (DISCORD_CHANNEL_ID example_env)"
    by (simp_all add: example_env_def str_truthy_def)
  have w: "the (DISCORD_WEBHOOK_URL example_env) = ''https://discord.com/api/webhooks/1/token''"
    by (simp add: example_env_def)
  have w1: "uploadToDiscord example_platform (\<lambda>req. Inl TypeError) ''bytes'' ''a.png'' ''image/png''
       example_env =
     (UploadFailed (ErrorCaught TypeError),
      [\<lparr>fetch_url = ''https://discord.com/api/webhooks/1/token?wait=true'',
        fetch_method = ''POST'', fetch_headers = [],
        fetch_body = upload_form example_platform ''bytes'' ''a.png'' ''image/png''\<rparr>])"
    using discord_webhook_precedence [OF h(1), where P = example_platform
        and fetch = "\<lambda>req. Inl TypeError" and fileBuffer = "''bytes''" and filename = "''a.png''"
        and contentType = "''image/png''", THEN conjunct2, THEN conjunct2, THEN conjunct1]
    by (simp add: webhook_request_def w)
  have w2: "uploadToDiscord example_platform (answer 500 ''{}'') ''bytes'' ''a.png'' ''image/png''
       example_env =
     (UploadFailed (ErrorValue (JStr ''HTTP 500'')),
      [\<lparr>fetch_url = ''https://discord.com/api/webhooks/1/token?wait=true'',
        fetch_method = ''POST'', fetch_headers = [],
        fetch_body = upload_form example_platform ''bytes'' ''a.png'' ''image/png''\<rparr>])"
    using discord_webhook_precedence [OF h(1), where P = example_platform
        and fetch = "answer 500 ''{}''" and fileBuffer = "''bytes''" and filename = "''a.png''"
        and contentType = "''image/png''", THEN conjunct2, THEN conjunct1]
    by (simp add: webhook_request_def w answer_def upload_answer_def ok_def example_platform_def
        decimal_examples)
  from h w1 w2 show ?thesis by (intro conjI)
qed


end
